theory Spec2Isabelle
  imports Main "HOL-Library.Sublist"
begin

section \<open>Python values, exceptions and the primitives the module uses\<close>

text \<open>
  The module \<^verbatim>\<open>visualizer.py\<close> reads its input by attribute access, \<^verbatim>\<open>hasattr\<close> and
  \<^verbatim>\<open>isinstance\<close>, so the input is modelled as dynamically typed data. An object is
  its class name with its instance attributes, in order; a missing attribute is a
  missing key. Strings are lists of characters, one \<^typ>\<open>char\<close> for one code point
  (code points below 256).

  Objects stand for the API client's model instances and for plain namespaces:
  they are always true in a condition, have no \<^verbatim>\<open>len()\<close>, and are compared by value and
  therefore unhashable. Dictionaries are keyed by strings, as JSON objects are.
\<close>

datatype val =
    VNone
  | VBool bool
  | VInt int
  | VStr string
  | VList "val list"
  | VDict "(string \<times> val) list"
  | VObj string "(string \<times> val) list"

text \<open>
  An exception is its class with the text that \<^verbatim>\<open>str(e)\<close> gives. All of them are
  subclasses of \<^verbatim>\<open>Exception\<close>, which is what the handler of \<^verbatim>\<open>_safe_json\<close> catches.
\<close>

datatype exn =
    AttributeError string
  | TypeError string
  | OtherError string

fun exn_str :: "exn \<Rightarrow> string" where
  "exn_str (AttributeError m) = m"
| "exn_str (TypeError m) = m"
| "exn_str (OtherError m) = m"

text \<open>Sequencing of computations that may raise: the first exception wins.\<close>

fun bnd :: "exn + 'a \<Rightarrow> ('a \<Rightarrow> exn + 'b) \<Rightarrow> exn + 'b" where
  "bnd (Inl e) f = Inl e"
| "bnd (Inr x) f = f x"

text \<open>
  What the module calls but does not define is a parameter of the model:
  \<^item> \<open>py_repr\<close>: \<^verbatim>\<open>str(v)\<close> for a list, a dictionary or an object;
  \<^item> \<open>json_dumps d v\<close>: \<^verbatim>\<open>json.dumps(v, indent=2)\<close>, with \<^verbatim>\<open>default=str\<close> when \<open>d\<close> holds;
    \<open>Inl\<close> is the exception it raises;
  \<^item> \<open>model_dump v\<close>: the outcome of \<^verbatim>\<open>v.model_dump()\<close> when the class of \<open>v\<close> has that
    method, \<open>None\<close> when it has not;
  \<^item> \<open>obj_iter v\<close>: the items that iterating the object \<open>v\<close> yields, \<open>None\<close> when its
    class is not iterable.
\<close>

record runtime =
  py_repr :: "val \<Rightarrow> string"
  json_dumps :: "bool \<Rightarrow> val \<Rightarrow> exn + string"
  model_dump :: "val \<Rightarrow> (exn + val) option"
  obj_iter :: "val \<Rightarrow> val list option"

subsection \<open>Decimal numerals\<close>

definition digit_char :: "nat \<Rightarrow> char" where
  "digit_char d = ''0123456789'' ! d"

function show_nat :: "nat \<Rightarrow> string" where
  "show_nat n = (if n < 10 then [digit_char n] else show_nat (n div 10) @ [digit_char (n mod 10)])"
  by pat_completeness auto
termination
  by (relation "measure id") auto

declare show_nat.simps [simp del]

definition show_int :: "int \<Rightarrow> string" where
  "show_int i = (if i < 0 then CHR ''-'' # show_nat (nat (- i)) else show_nat (nat i))"

subsection \<open>Types, attributes, truth, length, iteration, keys\<close>

fun type_name :: "val \<Rightarrow> string" where
  "type_name VNone = ''NoneType''"
| "type_name (VBool b) = ''bool''"
| "type_name (VInt i) = ''int''"
| "type_name (VStr s) = ''str''"
| "type_name (VList xs) = ''list''"
| "type_name (VDict kvs) = ''dict''"
| "type_name (VObj c fs) = c"

definition no_attribute :: "val \<Rightarrow> string \<Rightarrow> exn" where
  "no_attribute v a =
     AttributeError ([CHR 0x27] @ type_name v @ [CHR 0x27] @ '' object has no attribute ''
                     @ [CHR 0x27] @ a @ [CHR 0x27])"

text \<open>
  \<^verbatim>\<open>obj.a\<close>. None of the attribute names the module reads from a value that may be
  a built-in is an attribute of \<^verbatim>\<open>None\<close>, a bool, an int, a str, a list or a dict.
\<close>

fun getattr :: "val \<Rightarrow> string \<Rightarrow> exn + val" where
  "getattr (VObj c fs) a =
     (case map_of fs a of Some v \<Rightarrow> Inr v | None \<Rightarrow> Inl (no_attribute (VObj c fs) a))"
| "getattr v a = Inl (no_attribute v a)"

definition hasattr :: "val \<Rightarrow> string \<Rightarrow> bool" where
  "hasattr v a = (case getattr v a of Inr x \<Rightarrow> True | Inl e \<Rightarrow> False)"

fun truthy :: "val \<Rightarrow> bool" where
  "truthy VNone = False"
| "truthy (VBool b) = b"
| "truthy (VInt i) = (i \<noteq> 0)"
| "truthy (VStr s) = (s \<noteq> [])"
| "truthy (VList xs) = (xs \<noteq> [])"
| "truthy (VDict kvs) = (kvs \<noteq> [])"
| "truthy (VObj c fs) = True"

fun py_len :: "val \<Rightarrow> exn + nat" where
  "py_len (VStr s) = Inr (length s)"
| "py_len (VList xs) = Inr (length xs)"
| "py_len (VDict kvs) = Inr (length kvs)"
| "py_len v = Inl (TypeError (''object of type '' @ [CHR 0x27] @ type_name v @ [CHR 0x27]
                              @ '' has no len()''))"

definition not_iterable :: "val \<Rightarrow> exn" where
  "not_iterable v =
     TypeError ([CHR 0x27] @ type_name v @ [CHR 0x27] @ '' object is not iterable'')"

text \<open>
  \<^verbatim>\<open>for x in v\<close>: a list yields its elements, a string its characters, a dictionary
  its keys, an object what its class says.
\<close>

fun py_iter :: "runtime \<Rightarrow> val \<Rightarrow> exn + val list" where
  "py_iter rt (VList xs) = Inr xs"
| "py_iter rt (VStr s) = Inr (map (\<lambda>c. VStr [c]) s)"
| "py_iter rt (VDict kvs) = Inr (map (\<lambda>kv. VStr (fst kv)) kvs)"
| "py_iter rt (VObj c fs) =
     (case obj_iter rt (VObj c fs) of Some xs \<Rightarrow> Inr xs | None \<Rightarrow> Inl (not_iterable (VObj c fs)))"
| "py_iter rt v = Inl (not_iterable v)"

text \<open>
  A dictionary key: lists, dictionaries and objects are unhashable; \<^verbatim>\<open>True\<close> and
  \<^verbatim>\<open>False\<close> are the keys \<^verbatim>\<open>1\<close> and \<^verbatim>\<open>0\<close>.
\<close>

definition unhashable :: "val \<Rightarrow> exn" where
  "unhashable v = TypeError (''unhashable type: '' @ [CHR 0x27] @ type_name v @ [CHR 0x27])"

fun py_key :: "val \<Rightarrow> exn + val" where
  "py_key VNone = Inr VNone"
| "py_key (VBool b) = Inr (VInt (if b then 1 else 0))"
| "py_key (VInt i) = Inr (VInt i)"
| "py_key (VStr s) = Inr (VStr s)"
| "py_key v = Inl (unhashable v)"

text \<open>\<^verbatim>\<open>str(v)\<close>, which is what an f-string applies to an interpolated value.\<close>

fun py_str :: "runtime \<Rightarrow> val \<Rightarrow> string" where
  "py_str rt VNone = ''None''"
| "py_str rt (VBool b) = (if b then ''True'' else ''False'')"
| "py_str rt (VInt i) = show_int i"
| "py_str rt (VStr s) = s"
| "py_str rt v = py_repr rt v"

text \<open>\<^verbatim>\<open>str.strip()\<close> removes the white space of both ends.\<close>

definition py_isspace :: "char \<Rightarrow> bool" where
  "py_isspace c = ((of_char c :: nat) \<in> {9, 10, 11, 12, 13, 28, 29, 30, 31, 32, 133, 160})"

definition strip :: "string \<Rightarrow> string" where
  "strip s = rev (dropWhile py_isspace (rev (dropWhile py_isspace s)))"

section \<open>The markup templates\<close>

text \<open>
  Each f-string and string constant of the module is a function of the texts it
  interpolates, one line of the theory for one line of the source. A character
  beyond code point 255 is written as its numeric character reference.
\<close>

definition header_html :: "string \<Rightarrow> string \<Rightarrow> string \<Rightarrow> string \<Rightarrow> string" where
  \<open>header_html message_id message_model message_stop_reason message_role =
     ''\<newline>'' @
     ''    <div style="font-family: '' @ [CHR 0x27] @ ''Georgia'' @ [CHR 0x27] @ '', '' @ [CHR 0x27] @ ''Times New Roman'' @ [CHR 0x27] @ '', serif;\<newline>'' @
     ''                margin: 32px 0;\<newline>'' @
     ''                border: 1px solid #000;\<newline>'' @
     ''                background: #fff;">\<newline>'' @
     ''        <div style="background: #fff;\<newline>'' @
     ''                    color: #000;\<newline>'' @
     ''                    padding: 24px 32px;\<newline>'' @
     ''                    border-bottom: 3px solid #000;">\<newline>'' @
     ''            <h3 style="margin: 0 0 16px 0;\<newline>'' @
     ''                       font-size: 18px;\<newline>'' @
     ''                       font-weight: 700;\<newline>'' @
     ''                       letter-spacing: 0.05em;\<newline>'' @
     ''                       text-transform: uppercase;">\<newline>'' @
     ''                Claude API Response\<newline>'' @
     ''            </h3>\<newline>'' @
     ''            <div style="display: grid;\<newline>'' @
     ''                       grid-template-columns: repeat(2, 1fr);\<newline>'' @
     ''                       gap: 12px;\<newline>'' @
     ''                       font-size: 13px;\<newline>'' @
     ''                       color: #333;\<newline>'' @
     ''                       font-family: '' @ [CHR 0x27] @ ''Menlo'' @ [CHR 0x27] @ '', '' @ [CHR 0x27] @ ''Monaco'' @ [CHR 0x27] @ '', '' @ [CHR 0x27] @ ''Courier New'' @ [CHR 0x27] @ '', monospace;">\<newline>'' @
     ''                <div><strong>ID:</strong> '' @
     message_id @
     ''</div>\<newline>'' @
     ''                <div><strong>Model:</strong> '' @
     message_model @
     ''</div>\<newline>'' @
     ''                <div><strong>Stop:</strong> '' @
     message_stop_reason @
     ''</div>\<newline>'' @
     ''                <div><strong>Role:</strong> '' @
     message_role @
     ''</div>\<newline>'' @
     ''            </div>\<newline>'' @
     ''        </div>\<newline>'' @
     ''    ''\<close>

definition usage_html :: "string \<Rightarrow> string \<Rightarrow> string" where
  \<open>usage_html input_tokens output_tokens =
     ''\<newline>'' @
     ''        <div style="background: #fff;\<newline>'' @
     ''                    padding: 16px 32px;\<newline>'' @
     ''                    border-bottom: 1px solid #ddd;\<newline>'' @
     ''                    font-size: 13px;\<newline>'' @
     ''                    font-family: '' @ [CHR 0x27] @ ''Menlo'' @ [CHR 0x27] @ '', '' @ [CHR 0x27] @ ''Monaco'' @ [CHR 0x27] @ '', '' @ [CHR 0x27] @ ''Courier New'' @ [CHR 0x27] @ '', monospace;\<newline>'' @
     ''                    color: #666;\<newline>'' @
     ''                    line-height: 1.8;">\<newline>'' @
     ''            <strong style="color: #000;">Usage:</strong>\<newline>'' @
     ''            <span style="margin-left: 20px; white-space: nowrap;">Input: <strong style="color: #000;">'' @
     input_tokens @
     ''</strong> tokens</span>\<newline>'' @
     ''            <span style="margin-left: 20px; white-space: nowrap;">Output: <strong style="color: #000;">'' @
     output_tokens @
     ''</strong> tokens</span>\<newline>'' @
     ''        </div>\<newline>'' @
     ''        ''\<close>

definition content_open :: "string" where
  \<open>content_open =
     ''<div style="background: #fff; padding: 0;">''\<close>

definition content_close :: "string" where
  \<open>content_close =
     ''</div></div>''\<close>

definition label_start_tooltip :: "string \<Rightarrow> string" where
  \<open>label_start_tooltip color =
     ''<strong style="color: '' @
     color @
     '';\<newline>'' @
     ''                          font-size: 13px;\<newline>'' @
     ''                          font-weight: 700;\<newline>'' @
     ''                          letter-spacing: 0.15em;\<newline>'' @
     ''                          text-transform: uppercase;\<newline>'' @
     ''                          position: relative;\<newline>'' @
     ''                          display: inline-block;">''\<close>

definition tooltip_content_html :: "string \<Rightarrow> string" where
  \<open>tooltip_content_html tooltip_text =
     ''\<newline>'' @
     ''                <span style="position: absolute;\<newline>'' @
     ''                             bottom: calc(100% + 8px);\<newline>'' @
     ''                             left: 0;\<newline>'' @
     ''                             background: #323232;\<newline>'' @
     ''                             color: #fff;\<newline>'' @
     ''                             padding: 12px 16px;\<newline>'' @
     ''                             border-radius: 4px;\<newline>'' @
     ''                             font-size: 12px;\<newline>'' @
     ''                             font-weight: 400;\<newline>'' @
     ''                             line-height: 1.5;\<newline>'' @
     ''                             white-space: normal;\<newline>'' @
     ''                             width: 280px;\<newline>'' @
     ''                             text-align: left;\<newline>'' @
     ''                             box-shadow: 0 4px 12px rgba(0,0,0,0.15);\<newline>'' @
     ''                             opacity: 0;\<newline>'' @
     ''                             visibility: hidden;\<newline>'' @
     ''                             transition: opacity 0.13s ease-in-out, visibility 0.13s ease-in-out;\<newline>'' @
     ''                             pointer-events: none;\<newline>'' @
     ''                             z-index: 1000;\<newline>'' @
     ''                             text-transform: none;\<newline>'' @
     ''                             letter-spacing: normal;\<newline>'' @
     ''                             font-family: '' @ [CHR 0x27] @ ''Helvetica Neue'' @ [CHR 0x27] @ '', Arial, sans-serif;">\<newline>'' @
     ''                    '' @
     tooltip_text @
     ''\<newline>'' @
     ''                    <span style="position: absolute;\<newline>'' @
     ''                                 top: 100%;\<newline>'' @
     ''                                 left: 16px;\<newline>'' @
     ''                                 width: 0;\<newline>'' @
     ''                                 height: 0;\<newline>'' @
     ''                                 border-left: 6px solid transparent;\<newline>'' @
     ''                                 border-right: 6px solid transparent;\<newline>'' @
     ''                                 border-top: 6px solid #323232;"></span>\<newline>'' @
     ''                </span>\<newline>'' @
     ''        ''\<close>

definition label_start_plain :: "string \<Rightarrow> string" where
  \<open>label_start_plain color =
     ''<strong style="color: '' @
     color @
     ''; font-size: 13px; font-weight: 700; letter-spacing: 0.15em; text-transform: uppercase;">''\<close>

definition label_end :: "string" where
  \<open>label_end =
     ''</strong>''\<close>

definition block_head :: "string \<Rightarrow> string \<Rightarrow> string \<Rightarrow> string \<Rightarrow> string \<Rightarrow> string \<Rightarrow> string" where
  \<open>block_head color icon label_start type_label tooltip_content index =
     ''\<newline>'' @
     ''    <div style="margin: 0;\<newline>'' @
     ''                padding: 28px 36px;\<newline>'' @
     ''                background: #fff;\<newline>'' @
     ''                border-bottom: 1px solid #e5e5e5;">\<newline>'' @
     ''        <div style="display: flex;\<newline>'' @
     ''                   align-items: baseline;\<newline>'' @
     ''                   margin-bottom: 20px;\<newline>'' @
     ''                   font-family: '' @ [CHR 0x27] @ ''Georgia'' @ [CHR 0x27] @ '', '' @ [CHR 0x27] @ ''Times New Roman'' @ [CHR 0x27] @ '', serif;">\<newline>'' @
     ''            <span style="font-size: 18px; margin-right: 10px; color: '' @
     color @
     '';">'' @
     icon @
     ''</span>\<newline>'' @
     ''            '' @
     label_start @
     ''\<newline>'' @
     ''                '' @
     type_label @
     ''\<newline>'' @
     ''                '' @
     tooltip_content @
     ''\<newline>'' @
     ''            '' @
     label_end @
     ''\<newline>'' @
     ''            <span style="margin-left: auto;\<newline>'' @
     ''                        color: #bbb;\<newline>'' @
     ''                        font-size: 12px;\<newline>'' @
     ''                        font-weight: 400;\<newline>'' @
     ''                        font-family: '' @ [CHR 0x27] @ ''Menlo'' @ [CHR 0x27] @ '', '' @ [CHR 0x27] @ ''Monaco'' @ [CHR 0x27] @ '', monospace;">\<newline>'' @
     ''                Block '' @
     index @
     ''\<newline>'' @
     ''            </span>\<newline>'' @
     ''        </div>\<newline>'' @
     ''    ''\<close>

definition hover_style :: "string" where
  \<open>hover_style =
     ''\<newline>'' @
     ''        <style>\<newline>'' @
     ''            strong[style*="position: relative"]:hover span[style*="opacity: 0"] {\<newline>'' @
     ''                opacity: 1 !important;\<newline>'' @
     ''                visibility: visible !important;\<newline>'' @
     ''            }\<newline>'' @
     ''        </style>\<newline>'' @
     ''        ''\<close>

definition unknown_html :: "string \<Rightarrow> string" where
  \<open>unknown_html json =
     ''<pre style="background: rgba(0,0,0,0.05); padding: 10px; border-radius: 4px; overflow-x: auto; font-size: 12px;">'' @
     json @
     ''</pre>''\<close>

definition block_close :: "string" where
  \<open>block_close =
     ''</div>''\<close>

definition citation_html :: "string \<Rightarrow> string \<Rightarrow> string" where
  \<open>citation_html citation_number cited_text =
     ''\<newline>'' @
     ''                <div style="background: #f9f9f9;\<newline>'' @
     ''                            padding: 12px 16px;\<newline>'' @
     ''                            margin-top: 12px;\<newline>'' @
     ''                            border-left: 3px solid #dc2626;\<newline>'' @
     ''                            font-size: 13px;\<newline>'' @
     ''                            line-height: 1.6;\<newline>'' @
     ''                            font-family: '' @ [CHR 0x27] @ ''Georgia'' @ [CHR 0x27] @ '', '' @ [CHR 0x27] @ ''Times New Roman'' @ [CHR 0x27] @ '', serif;">\<newline>'' @
     ''                    <strong style="color: #dc2626;">['' @
     citation_number @
     '']</strong>\<newline>'' @
     ''                    <span style="color: #333; margin-left: 8px;">"'' @
     cited_text @
     ''"</span>\<newline>'' @
     ''                </div>\<newline>'' @
     ''                ''\<close>

definition cited_text_html :: "string \<Rightarrow> string \<Rightarrow> string" where
  \<open>cited_text_html text citation_info =
     ''\<newline>'' @
     ''        <div style="background: #fff;\<newline>'' @
     ''                    padding: 0;\<newline>'' @
     ''                    font-size: 15px;\<newline>'' @
     ''                    line-height: 1.8;\<newline>'' @
     ''                    font-family: '' @ [CHR 0x27] @ ''Georgia'' @ [CHR 0x27] @ '', '' @ [CHR 0x27] @ ''Times New Roman'' @ [CHR 0x27] @ '', serif;">\<newline>'' @
     ''            <div style="white-space: pre-wrap; color: #000;">'' @
     text @
     ''</div>\<newline>'' @
     ''            '' @
     citation_info @
     ''\<newline>'' @
     ''        </div>\<newline>'' @
     ''        ''\<close>

definition empty_text_html :: "string" where
  \<open>empty_text_html =
     ''\<newline>'' @
     ''        <div style="background: #fafafa;\<newline>'' @
     ''                    padding: 12px 16px;\<newline>'' @
     ''                    font-size: 13px;\<newline>'' @
     ''                    color: #999;\<newline>'' @
     ''                    font-style: italic;\<newline>'' @
     ''                    font-family: '' @ [CHR 0x27] @ ''Georgia'' @ [CHR 0x27] @ '', '' @ [CHR 0x27] @ ''Times New Roman'' @ [CHR 0x27] @ '', serif;\<newline>'' @
     ''                    border: 1px dashed #e5e5e5;">\<newline>'' @
     ''            Empty text block\<newline>'' @
     ''        </div>\<newline>'' @
     ''        ''\<close>

definition long_text_html :: "string \<Rightarrow> string \<Rightarrow> string" where
  \<open>long_text_html len_text text =
     ''\<newline>'' @
     ''        <details>\<newline>'' @
     ''            <summary style="cursor: pointer;\<newline>'' @
     ''                           color: #000;\<newline>'' @
     ''                           margin-bottom: 16px;\<newline>'' @
     ''                           font-weight: 600;\<newline>'' @
     ''                           padding: 8px 0;\<newline>'' @
     ''                           border-bottom: 1px solid #ddd;\<newline>'' @
     ''                           font-family: '' @ [CHR 0x27] @ ''Georgia'' @ [CHR 0x27] @ '', '' @ [CHR 0x27] @ ''Times New Roman'' @ [CHR 0x27] @ '', serif;">\<newline>'' @
     ''                Long content ('' @
     len_text @
     '' characters) &#8212; Click to expand\<newline>'' @
     ''            </summary>\<newline>'' @
     ''            <div style="background: #fff;\<newline>'' @
     ''                       padding: 16px 0;\<newline>'' @
     ''                       white-space: pre-wrap;\<newline>'' @
     ''                       font-size: 15px;\<newline>'' @
     ''                       line-height: 1.8;\<newline>'' @
     ''                       color: #000;\<newline>'' @
     ''                       font-family: '' @ [CHR 0x27] @ ''Georgia'' @ [CHR 0x27] @ '', '' @ [CHR 0x27] @ ''Times New Roman'' @ [CHR 0x27] @ '', serif;">\<newline>'' @
     text @
     ''\<newline>'' @
     ''            </div>\<newline>'' @
     ''        </details>\<newline>'' @
     ''        ''\<close>

definition plain_text_html :: "string \<Rightarrow> string" where
  \<open>plain_text_html text =
     ''\<newline>'' @
     ''        <div style="background: #fff;\<newline>'' @
     ''                    padding: 0;\<newline>'' @
     ''                    white-space: pre-wrap;\<newline>'' @
     ''                    font-size: 15px;\<newline>'' @
     ''                    line-height: 1.8;\<newline>'' @
     ''                    color: #000;\<newline>'' @
     ''                    font-family: '' @ [CHR 0x27] @ ''Georgia'' @ [CHR 0x27] @ '', '' @ [CHR 0x27] @ ''Times New Roman'' @ [CHR 0x27] @ '', serif;">\<newline>'' @
     text @
     ''\<newline>'' @
     ''        </div>\<newline>'' @
     ''        ''\<close>

definition tool_use_html :: "string \<Rightarrow> string \<Rightarrow> string \<Rightarrow> string" where
  \<open>tool_use_html name ident json =
     ''\<newline>'' @
     ''    <div style="margin-bottom: 16px; font-family: '' @ [CHR 0x27] @ ''Menlo'' @ [CHR 0x27] @ '', '' @ [CHR 0x27] @ ''Monaco'' @ [CHR 0x27] @ '', monospace; font-size: 12px;">\<newline>'' @
     ''        <span style="color: #666;">Tool:</span> <strong style="color: #000;">'' @
     name @
     ''</strong>\<newline>'' @
     ''        <span style="margin-left: 24px; color: #666;">ID:</span> <span style="color: #999;">'' @
     ident @
     ''</span>\<newline>'' @
     ''    </div>\<newline>'' @
     ''    <details open>\<newline>'' @
     ''        <summary style="cursor: pointer;\<newline>'' @
     ''                        color: #000;\<newline>'' @
     ''                        margin-bottom: 12px;\<newline>'' @
     ''                        font-size: 13px;\<newline>'' @
     ''                        font-weight: 600;\<newline>'' @
     ''                        font-family: '' @ [CHR 0x27] @ ''Georgia'' @ [CHR 0x27] @ '', '' @ [CHR 0x27] @ ''Times New Roman'' @ [CHR 0x27] @ '', serif;">\<newline>'' @
     ''            Input\<newline>'' @
     ''        </summary>\<newline>'' @
     ''        <pre style="background: #fafafa;\<newline>'' @
     ''                    padding: 18px;\<newline>'' @
     ''                    border: 1px solid #e5e5e5;\<newline>'' @
     ''                    border-radius: 2px;\<newline>'' @
     ''                    overflow-x: auto;\<newline>'' @
     ''                    font-size: 13px;\<newline>'' @
     ''                    line-height: 1.7;\<newline>'' @
     ''                    font-family: '' @ [CHR 0x27] @ ''Menlo'' @ [CHR 0x27] @ '', '' @ [CHR 0x27] @ ''Monaco'' @ [CHR 0x27] @ '', monospace;\<newline>'' @
     ''                    color: #000;">'' @
     json @
     ''</pre>\<newline>'' @
     ''    </details>\<newline>'' @
     ''    ''\<close>

definition error_badge :: "string" where
  \<open>error_badge =
     ''<span style="margin-left: 24px; padding: 2px 6px; background: #dc2626; color: #fff; font-weight: 700; font-size: 9px; letter-spacing: 0.05em; display: inline-block; vertical-align: middle;">ERROR</span>''\<close>

definition tool_result_head :: "string \<Rightarrow> string \<Rightarrow> string" where
  \<open>tool_result_head tool_use_id status_badge =
     ''\<newline>'' @
     ''    <div style="margin-bottom: 16px; font-family: '' @ [CHR 0x27] @ ''Menlo'' @ [CHR 0x27] @ '', '' @ [CHR 0x27] @ ''Monaco'' @ [CHR 0x27] @ '', monospace; font-size: 12px;">\<newline>'' @
     ''        <span style="color: #666;">Tool Use ID:</span> <span style="color: #999;">'' @
     tool_use_id @
     ''</span>\<newline>'' @
     ''        '' @
     status_badge @
     ''\<newline>'' @
     ''    </div>\<newline>'' @
     ''    <details open>\<newline>'' @
     ''        <summary style="cursor: pointer;\<newline>'' @
     ''                        color: #000;\<newline>'' @
     ''                        margin-bottom: 12px;\<newline>'' @
     ''                        font-size: 13px;\<newline>'' @
     ''                        font-weight: 600;\<newline>'' @
     ''                        font-family: '' @ [CHR 0x27] @ ''Georgia'' @ [CHR 0x27] @ '', '' @ [CHR 0x27] @ ''Times New Roman'' @ [CHR 0x27] @ '', serif;">\<newline>'' @
     ''            Result\<newline>'' @
     ''        </summary>\<newline>'' @
     ''        <div style="background: #fafafa;\<newline>'' @
     ''                    padding: 18px;\<newline>'' @
     ''                    border: 1px solid #e5e5e5;\<newline>'' @
     ''                    border-radius: 2px;\<newline>'' @
     ''                    font-size: 13px;\<newline>'' @
     ''                    line-height: 1.7;\<newline>'' @
     ''                    font-family: '' @ [CHR 0x27] @ ''Georgia'' @ [CHR 0x27] @ '', '' @ [CHR 0x27] @ ''Times New Roman'' @ [CHR 0x27] @ '', serif;\<newline>'' @
     ''                    color: #000;\<newline>'' @
     ''                    white-space: pre-wrap;">\<newline>'' @
     ''    ''\<close>

definition content_tag_html :: "string \<Rightarrow> string" where
  \<open>content_tag_html type_text =
     ''<div style="margin-bottom: 12px;"><strong>['' @
     type_text @
     '']</strong></div>''\<close>

definition tool_result_tail :: "string" where
  \<open>tool_result_tail =
     ''\<newline>'' @
     ''        </div>\<newline>'' @
     ''    </details>\<newline>'' @
     ''    ''\<close>

definition server_tool_use_html :: "string \<Rightarrow> string \<Rightarrow> string \<Rightarrow> string" where
  \<open>server_tool_use_html name ident json =
     ''\<newline>'' @
     ''    <div style="margin-bottom: 16px; font-family: '' @ [CHR 0x27] @ ''Menlo'' @ [CHR 0x27] @ '', '' @ [CHR 0x27] @ ''Monaco'' @ [CHR 0x27] @ '', monospace; font-size: 12px;">\<newline>'' @
     ''        <span style="color: #666;">Tool:</span> <strong style="color: #000;">'' @
     name @
     ''</strong>\<newline>'' @
     ''        <span style="margin-left: 24px; color: #666;">ID:</span> <span style="color: #999;">'' @
     ident @
     ''</span>\<newline>'' @
     ''    </div>\<newline>'' @
     ''    <details open>\<newline>'' @
     ''        <summary style="cursor: pointer;\<newline>'' @
     ''                        color: #000;\<newline>'' @
     ''                        margin-bottom: 12px;\<newline>'' @
     ''                        font-size: 13px;\<newline>'' @
     ''                        font-weight: 600;\<newline>'' @
     ''                        font-family: '' @ [CHR 0x27] @ ''Georgia'' @ [CHR 0x27] @ '', '' @ [CHR 0x27] @ ''Times New Roman'' @ [CHR 0x27] @ '', serif;">\<newline>'' @
     ''            Input\<newline>'' @
     ''        </summary>\<newline>'' @
     ''        <pre style="background: #fafafa;\<newline>'' @
     ''                    padding: 18px;\<newline>'' @
     ''                    border: 1px solid #e5e5e5;\<newline>'' @
     ''                    border-radius: 2px;\<newline>'' @
     ''                    overflow-x: auto;\<newline>'' @
     ''                    font-size: 13px;\<newline>'' @
     ''                    line-height: 1.7;\<newline>'' @
     ''                    font-family: '' @ [CHR 0x27] @ ''Menlo'' @ [CHR 0x27] @ '', '' @ [CHR 0x27] @ ''Monaco'' @ [CHR 0x27] @ '', monospace;\<newline>'' @
     ''                    color: #000;">'' @
     json @
     ''</pre>\<newline>'' @
     ''    </details>\<newline>'' @
     ''    ''\<close>

definition search_head :: "string \<Rightarrow> string" where
  \<open>search_head len_content =
     ''\<newline>'' @
     ''    <div style="margin-bottom: 16px;">\<newline>'' @
     ''        <strong style="color: #000;\<newline>'' @
     ''                       font-size: 13px;\<newline>'' @
     ''                       font-weight: 600;\<newline>'' @
     ''                       font-family: '' @ [CHR 0x27] @ ''Georgia'' @ [CHR 0x27] @ '', '' @ [CHR 0x27] @ ''Times New Roman'' @ [CHR 0x27] @ '', serif;">\<newline>'' @
     ''            Search Results\<newline>'' @
     ''        </strong>\<newline>'' @
     ''        <span style="color: #999;\<newline>'' @
     ''                     font-size: 12px;\<newline>'' @
     ''                     margin-left: 12px;\<newline>'' @
     ''                     font-family: '' @ [CHR 0x27] @ ''Menlo'' @ [CHR 0x27] @ '', '' @ [CHR 0x27] @ ''Monaco'' @ [CHR 0x27] @ '', monospace;">\<newline>'' @
     ''            '' @
     len_content @
     '' results\<newline>'' @
     ''        </span>\<newline>'' @
     ''    </div>\<newline>'' @
     ''    ''\<close>

definition search_result_html :: "string \<Rightarrow> string \<Rightarrow> string \<Rightarrow> string \<Rightarrow> string \<Rightarrow> string" where
  \<open>search_result_html number title url page_age len_encrypted =
     ''\<newline>'' @
     ''    <details style="margin-top: 12px;\<newline>'' @
     ''                    border: 1px solid #ddd;\<newline>'' @
     ''                    border-radius: 2px;\<newline>'' @
     ''                    background: #fafafa;">\<newline>'' @
     ''        <summary style="cursor: pointer;\<newline>'' @
     ''                        padding: 12px 16px;\<newline>'' @
     ''                        font-family: '' @ [CHR 0x27] @ ''Georgia'' @ [CHR 0x27] @ '', '' @ [CHR 0x27] @ ''Times New Roman'' @ [CHR 0x27] @ '', serif;\<newline>'' @
     ''                        font-size: 14px;\<newline>'' @
     ''                        line-height: 1.6;">\<newline>'' @
     ''            <strong style="color: #000; font-weight: 600;">Result '' @
     number @
     ''</strong>\<newline>'' @
     ''            <span style="color: #333; margin-left: 8px;">'' @
     title @
     ''</span>\<newline>'' @
     ''        </summary>\<newline>'' @
     ''        <div style="padding: 16px;\<newline>'' @
     ''                    background: #fff;\<newline>'' @
     ''                    border-top: 1px solid #e5e5e5;\<newline>'' @
     ''                    font-size: 13px;\<newline>'' @
     ''                    line-height: 1.8;\<newline>'' @
     ''                    font-family: '' @ [CHR 0x27] @ ''Georgia'' @ [CHR 0x27] @ '', '' @ [CHR 0x27] @ ''Times New Roman'' @ [CHR 0x27] @ '', serif;">\<newline>'' @
     ''            <div style="margin-bottom: 12px;">\<newline>'' @
     ''                <span style="color: #666; font-size: 12px; text-transform: uppercase; letter-spacing: 0.05em;">URL</span><br>\<newline>'' @
     ''                <a href="'' @
     url @
     ''" target="_blank" style="color: #000; text-decoration: underline; word-break: break-all;">\<newline>'' @
     ''                    '' @
     url @
     ''\<newline>'' @
     ''                </a>\<newline>'' @
     ''            </div>\<newline>'' @
     ''            <div style="margin-bottom: 12px;">\<newline>'' @
     ''                <span style="color: #666; font-size: 12px; text-transform: uppercase; letter-spacing: 0.05em;">Page Age</span><br>\<newline>'' @
     ''                <span style="color: #000;">'' @
     page_age @
     ''</span>\<newline>'' @
     ''            </div>\<newline>'' @
     ''            <div>\<newline>'' @
     ''                <span style="color: #666; font-size: 12px; text-transform: uppercase; letter-spacing: 0.05em;">Content</span><br>\<newline>'' @
     ''                <span style="color: #999; font-size: 12px; font-family: '' @ [CHR 0x27] @ ''Menlo'' @ [CHR 0x27] @ '', '' @ [CHR 0x27] @ ''Monaco'' @ [CHR 0x27] @ '', monospace;">\<newline>'' @
     ''                    Encrypted '' @ [CHR 0xB7] @ '' '' @
     len_encrypted @
     '' characters\<newline>'' @
     ''                </span>\<newline>'' @
     ''            </div>\<newline>'' @
     ''        </div>\<newline>'' @
     ''    </details>\<newline>'' @
     ''    ''\<close>

definition image_head :: "string \<Rightarrow> string" where
  \<open>image_head source_type =
     ''\<newline>'' @
     ''    <div style="margin-bottom: 16px; font-family: '' @ [CHR 0x27] @ ''Menlo'' @ [CHR 0x27] @ '', '' @ [CHR 0x27] @ ''Monaco'' @ [CHR 0x27] @ '', monospace; font-size: 12px;">\<newline>'' @
     ''        <span style="color: #666;">Source Type:</span> <strong style="color: #000;">'' @
     source_type @
     ''</strong>\<newline>'' @
     ''    ''\<close>

definition image_base64_html :: "string \<Rightarrow> string \<Rightarrow> string \<Rightarrow> string" where
  \<open>image_base64_html media_type data_size data =
     ''\<newline>'' @
     ''        <span style="margin-left: 24px; color: #666;">Media Type:</span> <strong style="color: #000;">'' @
     media_type @
     ''</strong>\<newline>'' @
     ''        <span style="margin-left: 24px; color: #666;">Size:</span> <span style="color: #999;">'' @
     data_size @
     '' bytes</span>\<newline>'' @
     ''    </div>\<newline>'' @
     ''    <div style="margin-top: 12px;">\<newline>'' @
     ''        <img src="data:'' @
     media_type @
     '';base64,'' @
     data @
     ''"\<newline>'' @
     ''             style="max-width: 100%; height: auto; border: 1px solid #ddd; border-radius: 2px;"\<newline>'' @
     ''             alt="Content image" />\<newline>'' @
     ''    </div>\<newline>'' @
     ''        ''\<close>

definition image_url_html :: "string \<Rightarrow> string" where
  \<open>image_url_html url =
     ''\<newline>'' @
     ''        <span style="margin-left: 24px; color: #666;">URL:</span> <a href="'' @
     url @
     ''" target="_blank" style="color: #000; text-decoration: underline;">'' @
     url @
     ''</a>\<newline>'' @
     ''    </div>\<newline>'' @
     ''    <div style="margin-top: 12px;">\<newline>'' @
     ''        <img src="'' @
     url @
     ''"\<newline>'' @
     ''             style="max-width: 100%; height: auto; border: 1px solid #ddd; border-radius: 2px;"\<newline>'' @
     ''             alt="Content image" />\<newline>'' @
     ''    </div>\<newline>'' @
     ''        ''\<close>

definition image_other_html :: "string" where
  \<open>image_other_html =
     ''</div>''\<close>

definition thinking_html :: "string \<Rightarrow> string \<Rightarrow> string" where
  \<open>thinking_html len_thinking thinking =
     ''\<newline>'' @
     ''    <details>\<newline>'' @
     ''        <summary style="cursor: pointer;\<newline>'' @
     ''                        color: #666;\<newline>'' @
     ''                        margin-bottom: 12px;\<newline>'' @
     ''                        font-size: 13px;\<newline>'' @
     ''                        font-weight: 600;\<newline>'' @
     ''                        font-family: '' @ [CHR 0x27] @ ''Georgia'' @ [CHR 0x27] @ '', '' @ [CHR 0x27] @ ''Times New Roman'' @ [CHR 0x27] @ '', serif;\<newline>'' @
     ''                        font-style: italic;">\<newline>'' @
     ''            Extended Thinking ('' @
     len_thinking @
     '' characters) &#8212; Click to view\<newline>'' @
     ''        </summary>\<newline>'' @
     ''        <div style="background: #fafafa;\<newline>'' @
     ''                    padding: 18px;\<newline>'' @
     ''                    border: 1px solid #e5e5e5;\<newline>'' @
     ''                    border-left: 3px solid #666;\<newline>'' @
     ''                    border-radius: 2px;\<newline>'' @
     ''                    white-space: pre-wrap;\<newline>'' @
     ''                    font-size: 13px;\<newline>'' @
     ''                    line-height: 1.7;\<newline>'' @
     ''                    color: #333;\<newline>'' @
     ''                    font-family: '' @ [CHR 0x27] @ ''Georgia'' @ [CHR 0x27] @ '', '' @ [CHR 0x27] @ ''Times New Roman'' @ [CHR 0x27] @ '', serif;\<newline>'' @
     ''                    font-style: italic;">\<newline>'' @
     thinking @
     ''\<newline>'' @
     ''        </div>\<newline>'' @
     ''    </details>\<newline>'' @
     ''    ''\<close>

definition document_head :: "string \<Rightarrow> string" where
  \<open>document_head source_type =
     ''\<newline>'' @
     ''    <div style="margin-bottom: 16px; font-family: '' @ [CHR 0x27] @ ''Menlo'' @ [CHR 0x27] @ '', '' @ [CHR 0x27] @ ''Monaco'' @ [CHR 0x27] @ '', monospace; font-size: 12px;">\<newline>'' @
     ''        <span style="color: #666;">Source Type:</span> <strong style="color: #000;">'' @
     source_type @
     ''</strong>\<newline>'' @
     ''    ''\<close>

definition document_base64_html :: "string \<Rightarrow> string \<Rightarrow> string" where
  \<open>document_base64_html media_type data_size =
     ''\<newline>'' @
     ''        <span style="margin-left: 24px; color: #666;">Media Type:</span> <strong style="color: #000;">'' @
     media_type @
     ''</strong>\<newline>'' @
     ''        <span style="margin-left: 24px; color: #666;">Size:</span> <span style="color: #999;">'' @
     data_size @
     '' bytes</span>\<newline>'' @
     ''    </div>\<newline>'' @
     ''    <div style="background: #fafafa;\<newline>'' @
     ''                padding: 18px;\<newline>'' @
     ''                border: 1px solid #e5e5e5;\<newline>'' @
     ''                border-radius: 2px;\<newline>'' @
     ''                margin-top: 12px;\<newline>'' @
     ''                text-align: center;\<newline>'' @
     ''                color: #666;\<newline>'' @
     ''                font-family: '' @ [CHR 0x27] @ ''Georgia'' @ [CHR 0x27] @ '', '' @ [CHR 0x27] @ ''Times New Roman'' @ [CHR 0x27] @ '', serif;">\<newline>'' @
     ''        <strong>Document Preview Not Available</strong><br>\<newline>'' @
     ''        <span style="font-size: 12px;">Base64-encoded document: '' @
     media_type @
     ''</span>\<newline>'' @
     ''    </div>\<newline>'' @
     ''        ''\<close>

definition document_other_html :: "string" where
  \<open>document_other_html =
     ''</div>''\<close>

definition unable_to_serialize :: "string \<Rightarrow> string" where
  \<open>unable_to_serialize message =
     ''<Unable to serialize: '' @
     message @
     ''>''\<close>

section \<open>The renderers\<close>

text \<open>
  The functions keep the names of the source without the leading underscore. A
  loop that appends to a string is a recursion over the list it runs through,
  giving the same concatenation.
\<close>

subsection \<open>Lookup tables\<close>

text \<open>\<^verbatim>\<open>d.get(k, default)\<close> on a table keyed by strings: an unhashable key raises.\<close>

definition dict_get :: "(string \<times> 'a) list \<Rightarrow> val \<Rightarrow> 'a \<Rightarrow> exn + 'a" where
  "dict_get d k dflt =
     bnd (py_key k) (\<lambda>k'.
       Inr (case k' of
              VStr s \<Rightarrow> (case map_of d s of Some x \<Rightarrow> x | None \<Rightarrow> dflt)
            | _ \<Rightarrow> dflt))"

definition tooltips :: "(string \<times> string) list" where
  "tooltips =
    [(''text'', ''The main text content in Claude'' @ [CHR 0x27] @ ''s response. This is where Claude writes its answers, explanations, and conversational replies.''),
     (''tool_use'', ''Claude is requesting your application to execute a tool or function. Your code must run the tool and return the result in the next API call.''),
     (''tool_result'', ''The result returned from executing a tool that Claude requested. This data is provided by your application after running the tool.''),
     (''server_tool_use'', ''Server tools are built and maintained by Anthropic, execute on Anthropic'' @ [CHR 0x27] @ ''s infrastructure, and return results in the same API call. Unlike regular tools, no client-side execution is required.''),
     (''web_search_tool_result'', ''Results from a web search performed by Anthropic'' @ [CHR 0x27] @ ''s servers. Contains search results that Claude can reference and cite in its response.''),
     (''image'', ''Image content included in the message. Can be provided as base64-encoded data or a URL reference.''),
     (''thinking'', ''Extended thinking content showing Claude'' @ [CHR 0x27] @ ''s internal reasoning process. This helps you understand how Claude approached the problem.''),
     (''document'', ''Document content attached to the message, such as PDFs or other file types provided as base64-encoded data.'')]"

definition get_block_tooltip_text :: "val \<Rightarrow> exn + string option" where
  "get_block_tooltip_text block_type =
     dict_get (map (\<lambda>kv. (fst kv, Some (snd kv))) tooltips) block_type None"

definition icons :: "(string \<times> string) list" where
  "icons =
    [(''text'', [CHR 0xA7]),
     (''tool_use'', ''&#9881;''),
     (''tool_result'', ''&#10003;''),
     (''server_tool_use'', ''&#9670;''),
     (''web_search_tool_result'', ''&#9671;''),
     (''web_search_result'', [CHR 0xB7]),
     (''image'', ''&#9673;''),
     (''thinking'', ''&#8756;''),
     (''document'', ''&#9645;'')]"

definition get_block_icon :: "val \<Rightarrow> exn + string" where
  "get_block_icon block_type = dict_get icons block_type ''&#8226;''"

definition colors :: "(string \<times> string) list" where
  "colors =
    [(''text'', ''#000''),
     (''tool_use'', ''#000''),
     (''tool_result'', ''#000''),
     (''server_tool_use'', ''#000''),
     (''web_search_tool_result'', ''#000''),
     (''web_search_result'', ''#666''),
     (''image'', ''#000''),
     (''thinking'', ''#666''),
     (''document'', ''#000'')]"

definition get_block_color :: "val \<Rightarrow> exn + string" where
  "get_block_color block_type = dict_get colors block_type ''#666''"

subsection \<open>Structured-text serialization\<close>

definition not_callable :: "val \<Rightarrow> exn" where
  "not_callable v =
     TypeError ([CHR 0x27] @ type_name v @ [CHR 0x27] @ '' object is not callable'')"

text \<open>
  \<^verbatim>\<open>hasattr(obj, 'model_dump')\<close> and \<^verbatim>\<open>obj.model_dump()\<close>: the method of the object's
  class, unless an instance attribute of that name hides it, and a value that is
  stored in an attribute cannot be called.
\<close>

definition has_model_dump :: "runtime \<Rightarrow> val \<Rightarrow> bool" where
  "has_model_dump rt obj =
     (case obj of
        VObj c fs \<Rightarrow> hasattr obj ''model_dump'' \<or> model_dump rt obj \<noteq> None
      | _ \<Rightarrow> False)"

definition call_model_dump :: "runtime \<Rightarrow> val \<Rightarrow> exn + val" where
  "call_model_dump rt obj =
     (case getattr obj ''model_dump'' of
        Inr v \<Rightarrow> Inl (not_callable v)
      | Inl e \<Rightarrow> (case model_dump rt obj of Some r \<Rightarrow> r | None \<Rightarrow> Inl e))"

text \<open>\<^verbatim>\<open>obj.__dict__\<close>: an object has one, holding its instance attributes.\<close>

definition obj_dict :: "val \<Rightarrow> val option" where
  "obj_dict obj = (case obj of VObj c fs \<Rightarrow> Some (VDict fs) | _ \<Rightarrow> None)"

text \<open>The body of the \<^verbatim>\<open>try\<close> of \<^verbatim>\<open>_safe_json\<close>, then the function with its handler.\<close>

definition safe_json_try :: "runtime \<Rightarrow> val \<Rightarrow> exn + string" where
  "safe_json_try rt obj =
     (if has_model_dump rt obj then
        bnd (call_model_dump rt obj) (\<lambda>d. json_dumps rt False d)
      else
        (case obj_dict obj of
           Some d \<Rightarrow> json_dumps rt True d
         | None \<Rightarrow> json_dumps rt True obj))"

definition safe_json :: "runtime \<Rightarrow> val \<Rightarrow> string" where
  "safe_json rt obj =
     (case safe_json_try rt obj of
        Inr s \<Rightarrow> s
      | Inl e \<Rightarrow> unable_to_serialize (exn_str e))"

subsection \<open>Text blocks and their citations\<close>

text \<open>
  The URL-to-index dictionary: for every block of the message whose type is
  \<^verbatim>\<open>web_search_tool_result\<close>, every result with a \<^verbatim>\<open>url\<close> is stored under that URL
  with its position in the block's content, counted from 1; a later entry
  replaces an earlier one of the same URL.
\<close>

fun index_results :: "(val \<rightharpoonup> nat) \<Rightarrow> (nat \<times> val) list \<Rightarrow> exn + (val \<rightharpoonup> nat)" where
  "index_results url_to_index [] = Inr url_to_index"
| "index_results url_to_index ((idx, result) # rest) =
     (if hasattr result ''url'' then
        bnd (getattr result ''url'') (\<lambda>u.
        bnd (py_key u) (\<lambda>k.
          index_results (url_to_index(k \<mapsto> idx + 1)) rest))
      else index_results url_to_index rest)"

fun index_blocks :: "runtime \<Rightarrow> (val \<rightharpoonup> nat) \<Rightarrow> val list \<Rightarrow> exn + (val \<rightharpoonup> nat)" where
  "index_blocks rt url_to_index [] = Inr url_to_index"
| "index_blocks rt url_to_index (msg_block # rest) =
     (if hasattr msg_block ''type''
         \<and> getattr msg_block ''type'' = Inr (VStr ''web_search_tool_result'') then
        bnd (getattr msg_block ''content'') (\<lambda>content.
        bnd (py_iter rt content) (\<lambda>results.
        bnd (index_results url_to_index (enumerate 0 results)) (\<lambda>m.
          index_blocks rt m rest)))
      else index_blocks rt url_to_index rest)"

definition build_url_to_index :: "runtime \<Rightarrow> val \<Rightarrow> exn + (val \<rightharpoonup> nat)" where
  "build_url_to_index rt message =
     (if truthy message then
        bnd (getattr message ''content'') (\<lambda>content.
        bnd (py_iter rt content) (\<lambda>blocks.
          index_blocks rt Map.empty blocks))
      else Inr Map.empty)"

text \<open>
  \<^verbatim>\<open>citation.cited_text[:100] + "..." if len(citation.cited_text) > 100 else citation.cited_text\<close>.
  A list longer than 100 cannot be joined to a string; a dictionary cannot be
  sliced (a \<^verbatim>\<open>TypeError\<close> up to Python 3.11).
\<close>

definition excerpt :: "val \<Rightarrow> exn + val" where
  \<open>excerpt cited =
     bnd (py_len cited) (\<lambda>n.
       if n > 100 then
         (case cited of
            VStr s \<Rightarrow> Inr (VStr (take 100 s @ ''...''))
          | VList xs \<Rightarrow> Inl (TypeError ''can only concatenate list (not "str") to list'')
          | _ \<Rightarrow> Inl (TypeError (''unhashable type: '' @ [CHR 0x27] @ ''slice'' @ [CHR 0x27])))
       else Inr cited)\<close>

definition citation_number :: "(val \<rightharpoonup> nat) \<Rightarrow> nat \<Rightarrow> val \<Rightarrow> exn + nat" where
  "citation_number url_to_index idx citation =
     (if hasattr citation ''url'' then
        bnd (getattr citation ''url'') (\<lambda>u.
        bnd (py_key u) (\<lambda>k.
          Inr (case url_to_index k of Some n \<Rightarrow> n | None \<Rightarrow> idx + 1)))
      else Inr (idx + 1))"

text \<open>What one round of the loop over the citations appends to \<^verbatim>\<open>citation_info\<close>.\<close>

definition citation_entry :: "runtime \<Rightarrow> (val \<rightharpoonup> nat) \<Rightarrow> nat \<Rightarrow> val \<Rightarrow> exn + string" where
  "citation_entry rt url_to_index idx citation =
     (if hasattr citation ''cited_text'' then
        bnd (getattr citation ''cited_text'') (\<lambda>c.
        bnd (excerpt c) (\<lambda>cited_text.
        bnd (citation_number url_to_index idx citation) (\<lambda>n.
          Inr (citation_html (show_nat n) (py_str rt cited_text)))))
      else Inr [])"

fun render_citations :: "runtime \<Rightarrow> (val \<rightharpoonup> nat) \<Rightarrow> (nat \<times> val) list \<Rightarrow> exn + string" where
  "render_citations rt url_to_index [] = Inr []"
| "render_citations rt url_to_index ((idx, citation) # rest) =
     bnd (citation_entry rt url_to_index idx citation) (\<lambda>entry.
     bnd (render_citations rt url_to_index rest) (\<lambda>info. Inr (entry @ info)))"

text \<open>\<^verbatim>\<open>not text or text.strip() == ""\<close>.\<close>

definition is_empty_text :: "val \<Rightarrow> exn + bool" where
  "is_empty_text text =
     (if \<not> truthy text then Inr True
      else (case text of
              VStr s \<Rightarrow> Inr (strip s = [])
            | _ \<Rightarrow> bnd (getattr text ''strip'') (\<lambda>m. Inl (not_callable m))))"

definition has_citations :: "val \<Rightarrow> bool" where
  "has_citations block =
     (case getattr block ''citations'' of Inr cs \<Rightarrow> truthy cs | Inl e \<Rightarrow> False)"

definition render_text_block :: "runtime \<Rightarrow> val \<Rightarrow> val \<Rightarrow> exn + string" where
  "render_text_block rt block message =
     bnd (getattr block ''text'') (\<lambda>text.
     bnd (is_empty_text text) (\<lambda>is_empty.
       if has_citations block then
         bnd (build_url_to_index rt message) (\<lambda>url_to_index.
         bnd (getattr block ''citations'') (\<lambda>cs.
         bnd (py_iter rt cs) (\<lambda>citations.
         bnd (render_citations rt url_to_index (enumerate 0 citations)) (\<lambda>citation_info.
           Inr (cited_text_html (py_str rt text) citation_info)))))
       else if is_empty then Inr empty_text_html
       else
         bnd (py_len text) (\<lambda>n.
           if n > 1000 then Inr (long_text_html (show_nat n) (py_str rt text))
           else Inr (plain_text_html (py_str rt text)))))"

subsection \<open>Tool blocks\<close>

definition render_tool_use_block :: "runtime \<Rightarrow> val \<Rightarrow> exn + string" where
  "render_tool_use_block rt block =
     bnd (getattr block ''name'') (\<lambda>name.
     bnd (getattr block ''id'') (\<lambda>ident.
     bnd (getattr block ''input'') (\<lambda>input.
     bnd (json_dumps rt False input) (\<lambda>json.
       Inr (tool_use_html (py_str rt name) (py_str rt ident) json)))))"

text \<open>One element of a tool result whose content is a list.\<close>

definition render_content_block :: "runtime \<Rightarrow> val \<Rightarrow> string" where
  "render_content_block rt content_block =
     (case getattr content_block ''type'' of
        Inr t \<Rightarrow> content_tag_html (py_str rt t)
      | Inl e \<Rightarrow> []) @ safe_json rt content_block"

definition render_tool_result_block :: "runtime \<Rightarrow> val \<Rightarrow> exn + string" where
  "render_tool_result_block rt block =
     (let is_error = (case getattr block ''is_error'' of Inr b \<Rightarrow> truthy b | Inl e \<Rightarrow> False);
          status_badge = (if is_error then error_badge else [])
      in
        bnd (getattr block ''tool_use_id'') (\<lambda>tool_use_id.
        bnd (getattr block ''content'') (\<lambda>content.
          Inr (tool_result_head (py_str rt tool_use_id) status_badge
               @ (case content of
                    VStr s \<Rightarrow> s
                  | VList xs \<Rightarrow> concat (map (render_content_block rt) xs)
                  | _ \<Rightarrow> py_str rt content)
               @ tool_result_tail))))"

definition render_server_tool_use_block :: "runtime \<Rightarrow> val \<Rightarrow> exn + string" where
  "render_server_tool_use_block rt block =
     bnd (getattr block ''name'') (\<lambda>name.
     bnd (getattr block ''id'') (\<lambda>ident.
     bnd (getattr block ''input'') (\<lambda>input.
     bnd (json_dumps rt False input) (\<lambda>json.
       Inr (server_tool_use_html (py_str rt name) (py_str rt ident) json)))))"

subsection \<open>Web search results\<close>

definition render_individual_search_result :: "runtime \<Rightarrow> val \<Rightarrow> nat \<Rightarrow> exn + string" where
  "render_individual_search_result rt result index =
     bnd (getattr result ''title'') (\<lambda>title.
     bnd (getattr result ''url'') (\<lambda>url.
     bnd (getattr result ''page_age'') (\<lambda>page_age.
     bnd (getattr result ''encrypted_content'') (\<lambda>encrypted_content.
     bnd (py_len encrypted_content) (\<lambda>n.
       Inr (search_result_html (show_nat (index + 1)) (py_str rt title) (py_str rt url)
              (py_str rt page_age) (show_nat n)))))))"

definition is_web_search_result :: "val \<Rightarrow> bool" where
  "is_web_search_result result =
     (hasattr result ''type'' \<and> getattr result ''type'' = Inr (VStr ''web_search_result''))"

fun render_search_results :: "runtime \<Rightarrow> (nat \<times> val) list \<Rightarrow> exn + string" where
  "render_search_results rt [] = Inr []"
| "render_search_results rt ((idx, result) # rest) =
     (if is_web_search_result result then
        bnd (render_individual_search_result rt result idx) (\<lambda>h.
        bnd (render_search_results rt rest) (\<lambda>hs. Inr (h @ hs)))
      else render_search_results rt rest)"

definition render_web_search_result_block :: "runtime \<Rightarrow> val \<Rightarrow> nat \<Rightarrow> exn + string" where
  "render_web_search_result_block rt block depth =
     bnd (getattr block ''content'') (\<lambda>content.
     bnd (py_len content) (\<lambda>n.
     bnd (py_iter rt content) (\<lambda>results.
     bnd (render_search_results rt (enumerate 0 results)) (\<lambda>entries.
       Inr (search_head (show_nat n) @ entries)))))"

subsection \<open>Images, thinking, documents\<close>

text \<open>\<^verbatim>\<open>source.get(name) if isinstance(source, dict) else source.name\<close>.\<close>

definition source_field :: "val \<Rightarrow> string \<Rightarrow> exn + val" where
  "source_field source name =
     (case source of
        VDict kvs \<Rightarrow> Inr (case map_of kvs name of Some v \<Rightarrow> v | None \<Rightarrow> VNone)
      | _ \<Rightarrow> getattr source name)"

text \<open>\<^verbatim>\<open>len(data) if data else 0\<close>.\<close>

definition data_size_of :: "val \<Rightarrow> exn + nat" where
  "data_size_of data = (if truthy data then py_len data else Inr 0)"

definition render_image_block :: "runtime \<Rightarrow> val \<Rightarrow> exn + string" where
  "render_image_block rt block =
     bnd (getattr block ''source'') (\<lambda>source.
     bnd (source_field source ''type'') (\<lambda>source_type.
       if source_type = VStr ''base64'' then
         bnd (source_field source ''media_type'') (\<lambda>media_type.
         bnd (source_field source ''data'') (\<lambda>data.
         bnd (data_size_of data) (\<lambda>data_size.
           Inr (image_head (py_str rt source_type)
                @ image_base64_html (py_str rt media_type) (show_nat data_size) (py_str rt data)))))
       else if source_type = VStr ''url'' then
         bnd (source_field source ''url'') (\<lambda>url.
           Inr (image_head (py_str rt source_type) @ image_url_html (py_str rt url)))
       else Inr (image_head (py_str rt source_type) @ image_other_html)))"

definition render_thinking_block :: "runtime \<Rightarrow> val \<Rightarrow> exn + string" where
  "render_thinking_block rt block =
     bnd (getattr block ''thinking'') (\<lambda>thinking.
     bnd (py_len thinking) (\<lambda>n.
       Inr (thinking_html (show_nat n) (py_str rt thinking))))"

definition render_document_block :: "runtime \<Rightarrow> val \<Rightarrow> exn + string" where
  "render_document_block rt block =
     bnd (getattr block ''source'') (\<lambda>source.
     bnd (source_field source ''type'') (\<lambda>source_type.
       if source_type = VStr ''base64'' then
         bnd (source_field source ''media_type'') (\<lambda>media_type.
         bnd (source_field source ''data'') (\<lambda>data.
         bnd (data_size_of data) (\<lambda>data_size.
           Inr (document_head (py_str rt source_type)
                @ document_base64_html (py_str rt media_type) (show_nat data_size)))))
       else Inr (document_head (py_str rt source_type) @ document_other_html)))"

section \<open>The dispatcher\<close>

text \<open>\<^verbatim>\<open>block_type.replace('_', ' ')\<close>.\<close>

definition type_label_of :: "val \<Rightarrow> exn + string" where
  "type_label_of block_type =
     (case block_type of
        VStr s \<Rightarrow> Inr (map (\<lambda>c. if c = CHR ''_'' then CHR '' '' else c) s)
      | _ \<Rightarrow> bnd (getattr block_type ''replace'') (\<lambda>m. Inl (not_callable m)))"

text \<open>The chain of comparisons of the block type that selects the renderer.\<close>

definition render_body :: "runtime \<Rightarrow> val \<Rightarrow> val \<Rightarrow> val \<Rightarrow> nat \<Rightarrow> exn + string" where
  "render_body rt block_type block message depth =
     (if block_type = VStr ''text'' then render_text_block rt block message
      else if block_type = VStr ''tool_use'' then render_tool_use_block rt block
      else if block_type = VStr ''tool_result'' then render_tool_result_block rt block
      else if block_type = VStr ''server_tool_use'' then render_server_tool_use_block rt block
      else if block_type = VStr ''web_search_tool_result'' then
        render_web_search_result_block rt block depth
      else if block_type = VStr ''image'' then render_image_block rt block
      else if block_type = VStr ''thinking'' then render_thinking_block rt block
      else if block_type = VStr ''document'' then render_document_block rt block
      else Inr (unknown_html (safe_json rt block)))"

text \<open>
  The shell of a block: the icon, the label of the type with its tooltip, the
  index badge, and the style element of the tooltip when there is one.
\<close>

definition block_shell :: "string \<Rightarrow> string \<Rightarrow> string option \<Rightarrow> string \<Rightarrow> nat \<Rightarrow> string" where
  "block_shell color icon tooltip_text type_label index =
     (let shown = (case tooltip_text of Some t \<Rightarrow> t \<noteq> [] | None \<Rightarrow> False);
          label_start = (if shown then label_start_tooltip color else label_start_plain color);
          tooltip_content = (case tooltip_text of
                               Some t \<Rightarrow> if shown then tooltip_content_html t else []
                             | None \<Rightarrow> [])
      in block_head color icon label_start type_label tooltip_content (show_nat index)
         @ (if shown then hover_style else []))"

definition render_block :: "runtime \<Rightarrow> val \<Rightarrow> nat \<Rightarrow> val \<Rightarrow> nat \<Rightarrow> exn + string" where
  "render_block rt block index message depth =
     bnd (getattr block ''type'') (\<lambda>block_type.
     bnd (get_block_color block_type) (\<lambda>color.
     bnd (get_block_icon block_type) (\<lambda>icon.
     bnd (get_block_tooltip_text block_type) (\<lambda>tooltip_text.
     bnd (type_label_of block_type) (\<lambda>type_label.
     bnd (render_body rt block_type block message depth) (\<lambda>body.
       Inr (block_shell color icon tooltip_text type_label index @ body @ block_close)))))))"

fun render_blocks :: "runtime \<Rightarrow> val \<Rightarrow> (nat \<times> val) list \<Rightarrow> exn + string" where
  "render_blocks rt message [] = Inr []"
| "render_blocks rt message ((idx, block) # rest) =
     bnd (render_block rt block idx message 0) (\<lambda>h.
     bnd (render_blocks rt message rest) (\<lambda>hs. Inr (h @ hs)))"

definition build_header :: "runtime \<Rightarrow> val \<Rightarrow> exn + string" where
  "build_header rt message =
     bnd (getattr message ''id'') (\<lambda>ident.
     bnd (getattr message ''model'') (\<lambda>model.
     bnd (getattr message ''stop_reason'') (\<lambda>stop_reason.
     bnd (getattr message ''role'') (\<lambda>role.
     bnd (getattr message ''usage'') (\<lambda>usage.
       if truthy usage then
         bnd (getattr usage ''input_tokens'') (\<lambda>input_tokens.
         bnd (getattr usage ''output_tokens'') (\<lambda>output_tokens.
           Inr (header_html (py_str rt ident) (py_str rt model) (py_str rt stop_reason)
                  (py_str rt role)
                @ usage_html (py_str rt input_tokens) (py_str rt output_tokens))))
       else
         Inr (header_html (py_str rt ident) (py_str rt model) (py_str rt stop_reason)
                (py_str rt role)))))))"

definition build_html :: "runtime \<Rightarrow> val \<Rightarrow> exn + string" where
  "build_html rt message =
     bnd (build_header rt message) (\<lambda>header.
     bnd (getattr message ''content'') (\<lambda>content.
     bnd (py_iter rt content) (\<lambda>blocks.
     bnd (render_blocks rt message (enumerate 0 blocks)) (\<lambda>fragments.
       Inr (header @ (content_open @ fragments @ content_close))))))"

text \<open>
  \<^verbatim>\<open>visualize_message\<close> builds the whole document and only then hands it to
  \<^verbatim>\<open>display\<close>. The display sink is the list of the documents shown so far.
\<close>

definition visualize_message :: "runtime \<Rightarrow> val \<Rightarrow> string list \<Rightarrow> (exn + unit) \<times> string list" where
  "visualize_message rt message sink =
     (case build_html rt message of
        Inl e \<Rightarrow> (Inl e, sink)
      | Inr html \<Rightarrow> (Inr (), sink @ [html]))"

section \<open>Notions used in the statements\<close>

text \<open>
  The fields that the renderer of each block type reads without a guard, and a
  block that lacks its type or one of these.
\<close>

definition required_fields :: "val \<Rightarrow> string list" where
  "required_fields block_type =
     (if block_type = VStr ''text'' then [''text'']
      else if block_type = VStr ''tool_use'' then [''name'', ''id'', ''input'']
      else if block_type = VStr ''tool_result'' then [''tool_use_id'', ''content'']
      else if block_type = VStr ''server_tool_use'' then [''name'', ''id'', ''input'']
      else if block_type = VStr ''web_search_tool_result'' then [''content'']
      else if block_type = VStr ''image'' then [''source'']
      else if block_type = VStr ''thinking'' then [''thinking'']
      else if block_type = VStr ''document'' then [''source'']
      else [])"

definition lacks_required_field :: "val \<Rightarrow> bool" where
  "lacks_required_field block =
     (case getattr block ''type'' of
        Inl e \<Rightarrow> True
      | Inr t \<Rightarrow> list_ex (\<lambda>f. \<not> hasattr block f) (required_fields t))"

text \<open>The dictionary key of the URL of a search result or of a citation, if it has one.\<close>

definition url_key :: "val \<Rightarrow> val option" where
  "url_key v =
     (case getattr v ''url'' of
        Inr u \<Rightarrow> (case py_key u of Inr k \<Rightarrow> Some k | Inl e \<Rightarrow> None)
      | Inl e \<Rightarrow> None)"

text \<open>
  Some web-search block among \<open>blocks\<close> has, at position \<open>j\<close> counted from 1, a
  result whose URL has the key \<open>k\<close>.
\<close>

definition search_result_at :: "runtime \<Rightarrow> val list \<Rightarrow> val \<Rightarrow> nat \<Rightarrow> bool" where
  "search_result_at rt blocks k j =
     list_ex (\<lambda>b. getattr b ''type'' = Inr (VStr ''web_search_tool_result'') \<and>
                 (case bnd (getattr b ''content'') (py_iter rt) of
                    Inr results \<Rightarrow> 0 < j \<and> j \<le> length results \<and> url_key (results ! (j - 1)) = Some k
                  | Inl e \<Rightarrow> False)) blocks"

text \<open>
  Following the specification: the citation number is the URL-to-index map's
  entry for the citation's URL if present, else the citation's position in its
  list, counted from 1.
\<close>

definition citation_label :: "(val \<rightharpoonup> nat) \<Rightarrow> nat \<Rightarrow> val \<Rightarrow> nat" where
  "citation_label url_to_index idx citation =
     (case url_key citation of
        Some k \<Rightarrow> (case url_to_index k of Some j \<Rightarrow> j | None \<Rightarrow> idx + 1)
      | None \<Rightarrow> idx + 1)"

text \<open>
  Following the specification: the quoted excerpt is the first 100 characters
  with an ellipsis marker if the text is longer, else the text.
\<close>

definition quoted_excerpt :: "string \<Rightarrow> string" where
  "quoted_excerpt s = (if 100 < length s then take 100 s @ ''...'' else s)"

section \<open>Example inputs\<close>

text \<open>
  A small runtime for the examples. Its encoder is exact on what the examples
  give it: an empty dictionary, and, without \<^verbatim>\<open>default=str\<close>, a dictionary whose one
  value is an object, which \<^verbatim>\<open>json.dumps\<close> refuses. Its objects have no
  \<^verbatim>\<open>model_dump\<close> and are not iterable.
\<close>

definition example_runtime :: runtime where
  "example_runtime =
     \<lparr>py_repr = (\<lambda>v. ''<'' @ type_name v @ ''>''),
      json_dumps = (\<lambda>d v. case v of
                       VDict [(k, VObj c fs)] \<Rightarrow>
                         if d then Inr ''{}''
                         else Inl (TypeError (''Object of type '' @ c
                                              @ '' is not JSON serializable''))
                     | _ \<Rightarrow> Inr ''{}''),
      model_dump = (\<lambda>v. None),
      obj_iter = (\<lambda>v. None)\<rparr>"

text \<open>
  The same runtime for objects of the API client: \<^verbatim>\<open>model_dump()\<close> returns the
  object's fields, here one field with a value the encoder refuses.
\<close>

definition client_runtime :: runtime where
  "client_runtime =
     example_runtime\<lparr>model_dump := (\<lambda>v. Some (Inr (VDict [(''when'', VObj ''datetime'' [])])))\<rparr>"

definition search_block :: val where
  "search_block =
     VObj ''WebSearchToolResultBlock''
       [(''type'', VStr ''web_search_tool_result''),
        (''content'', VList
           [VObj ''WebSearchResultBlock''
              [(''type'', VStr ''web_search_result''), (''url'', VStr ''u1''),
               (''title'', VStr ''First''), (''page_age'', VNone),
               (''encrypted_content'', VStr ''abcd'')],
            VObj ''WebSearchResultBlock''
              [(''type'', VStr ''web_search_result''), (''url'', VStr ''u2''),
               (''title'', VStr ''Second''), (''page_age'', VStr ''2 days''),
               (''encrypted_content'', VStr ''ef'')],
            VObj ''WebSearchResultBlock''
              [(''type'', VStr ''web_search_result''), (''url'', VStr ''u3''),
               (''title'', VStr ''Third''), (''page_age'', VNone),
               (''encrypted_content'', VStr [])]])]"

definition cited_block :: val where
  "cited_block =
     VObj ''TextBlock''
       [(''type'', VStr ''text''), (''text'', VStr ''It rains.''),
        (''citations'', VList
           [VObj ''CitationsWebSearchResultLocation''
              [(''cited_text'', VStr ''rain today''), (''url'', VStr ''u2'')]])]"

definition second_cited_block :: val where
  "second_cited_block =
     VObj ''TextBlock''
       [(''type'', VStr ''text''), (''text'', VStr ''Still.''),
        (''citations'', VList
           [VObj ''CitationCharLocation'' [(''cited_text'', VStr ''a page'')],
            VObj ''CitationsWebSearchResultLocation''
              [(''cited_text'', VStr ''more rain''), (''url'', VStr ''u2'')]])]"

definition example_message :: "val list \<Rightarrow> val" where
  "example_message blocks =
     VObj ''Message''
       [(''id'', VStr ''msg_1''), (''model'', VStr ''claude''), (''stop_reason'', VStr ''end_turn''),
        (''role'', VStr ''assistant''),
        (''usage'', VObj ''Usage'' [(''input_tokens'', VInt 12), (''output_tokens'', VInt 34)]),
        (''content'', VList blocks)]"

definition search_message :: val where
  "search_message = example_message [search_block, cited_block, second_cited_block]"

text \<open>A text block without its \<^verbatim>\<open>text\<close>, after a block that renders.\<close>

definition thinking_block :: val where
  "thinking_block = VObj ''ThinkingBlock'' [(''type'', VStr ''thinking''), (''thinking'', VStr ''hm'')]"

definition broken_block :: val where
  "broken_block = VObj ''TextBlock'' [(''type'', VStr ''text'')]"

definition broken_message :: val where
  "broken_message = example_message [thinking_block, broken_block]"

text \<open>A block of a type the dispatcher does not know.\<close>

definition unknown_block :: val where
  "unknown_block = VObj ''RedactedThinkingBlock'' [(''type'', VStr ''redacted_thinking''), (''data'', VStr ''xyz'')]"

definition plain_block :: val where
  "plain_block = VObj ''TextBlock'' [(''type'', VStr ''text''), (''text'', VStr ''Hello.'')]"

definition two_block_message :: val where
  "two_block_message = example_message [thinking_block, plain_block]"

text \<open>A citation whose quoted text has 101 characters.\<close>

definition long_quote_block :: val where
  "long_quote_block =
     VObj ''TextBlock''
       [(''type'', VStr ''text''), (''text'', VStr ''Quoted.''),
        (''citations'', VList
           [VObj ''CitationCharLocation'' [(''cited_text'', VStr (replicate 101 (CHR ''a'')))]])]"

text \<open>A citation without \<^verbatim>\<open>cited_text\<close> before one that has it.\<close>

definition gap_block :: val where
  "gap_block =
     VObj ''TextBlock''
       [(''type'', VStr ''text''), (''text'', VStr ''Two.''),
        (''citations'', VList
           [VObj ''CitationPageLocation'' [(''document_index'', VInt 0)],
            VObj ''CitationCharLocation'' [(''cited_text'', VStr ''a page'')]])]"

text \<open>Text blocks without citations: 1001 spaces, 1001 letters, 1000 letters, two spaces.\<close>

definition blank_block :: val where
  "blank_block =
     VObj ''TextBlock'' [(''type'', VStr ''text''), (''text'', VStr (replicate 1001 (CHR '' '')))]"

definition long_block :: val where
  "long_block =
     VObj ''TextBlock'' [(''type'', VStr ''text''), (''text'', VStr (replicate 1001 (CHR ''a'')))]"

definition limit_block :: val where
  "limit_block =
     VObj ''TextBlock'' [(''type'', VStr ''text''), (''text'', VStr (replicate 1000 (CHR ''a'')))]"

definition spaces_block :: val where
  "spaces_block =
     VObj ''TextBlock'' [(''type'', VStr ''text''), (''text'', VStr [CHR '' '', CHR '' '']),
                         (''citations'', VNone)]"

text \<open>A text of 1001 letters with one citation.\<close>

definition long_cited_block :: val where
  "long_cited_block =
     VObj ''TextBlock''
       [(''type'', VStr ''text''), (''text'', VStr (replicate 1001 (CHR ''a''))),
        (''citations'', VList
           [VObj ''CitationCharLocation'' [(''cited_text'', VStr ''a page'')]])]"

text \<open>A text block with an empty text and one citation.\<close>

definition empty_cited_block :: val where
  "empty_cited_block =
     VObj ''TextBlock''
       [(''type'', VStr ''text''), (''text'', VStr []),
        (''citations'', VList
           [VObj ''CitationCharLocation'' [(''cited_text'', VStr ''a page'')]])]"

text \<open>A web-search block whose second entry is not a search result.\<close>

definition first_result :: val where
  "first_result =
     VObj ''WebSearchResultBlock''
       [(''type'', VStr ''web_search_result''), (''url'', VStr ''u1''),
        (''title'', VStr ''First''), (''page_age'', VNone),
        (''encrypted_content'', VStr ''abcd'')]"

definition mixed_search_block :: val where
  "mixed_search_block =
     VObj ''WebSearchToolResultBlock''
       [(''type'', VStr ''web_search_tool_result''),
        (''content'', VList [first_result, VObj ''Note'' [(''type'', VStr ''note'')]])]"

section \<open>Basic facts\<close>

lemma bnd_eq_Inr: "bnd m f = Inr y \<longleftrightarrow> (\<exists>x. m = Inr x \<and> f x = Inr y)"
  by (cases m) simp_all

lemma bnd_eq_Inl: "bnd m f = Inl e \<longleftrightarrow> m = Inl e \<or> (\<exists>x. m = Inr x \<and> f x = Inl e)"
  by (cases m) simp_all

section \<open>The dispatcher keeps the order of the blocks\<close>

text \<open>
  The loop of \<^verbatim>\<open>_build_html\<close> yields one fragment for each block, in order, the
  fragment at position \<open>i\<close> rendered with the index \<open>n + i\<close>.
\<close>

lemma render_blocks_fragments:
  "render_blocks rt message (enumerate n blocks) = Inr body \<Longrightarrow>
   \<exists>frags. length frags = length blocks \<and> body = concat frags \<and>
     (\<forall>i<length blocks. render_block rt (blocks ! i) (n + i) message 0 = Inr (frags ! i))"
proof (induction blocks arbitrary: n body)
  case Nil
  then show ?case by simp
next
  case (Cons b bs)
  from Cons.prems obtain h hs where
    h: "render_block rt b n message 0 = Inr h" and
    hs: "render_blocks rt message (enumerate (Suc n) bs) = Inr hs" and
    body: "body = h @ hs"
    by (auto simp: bnd_eq_Inr)
  from Cons.IH [OF hs] obtain frags where
    fr: "length frags = length bs" "hs = concat frags"
        "\<forall>i<length bs. render_block rt (bs ! i) (Suc n + i) message 0 = Inr (frags ! i)"
    by blast
  have "\<forall>i<length (b # bs). render_block rt ((b # bs) ! i) (n + i) message 0 = Inr ((h # frags) ! i)"
  proof (intro allI impI)
    fix i assume "i < length (b # bs)"
    then show "render_block rt ((b # bs) ! i) (n + i) message 0 = Inr ((h # frags) ! i)"
      using h fr(3) by (cases i) simp_all
  qed
  with fr(1,2) body show ?case
    by (intro exI [of _ "h # frags"]) simp
qed

lemma render_blocks_error:
  "i < length blocks \<Longrightarrow> render_block rt (blocks ! i) (n + i) message 0 = Inl e \<Longrightarrow>
   \<exists>e'. render_blocks rt message (enumerate n blocks) = Inl e'"
proof (induction blocks arbitrary: n i)
  case Nil
  then show ?case by simp
next
  case (Cons b bs)
  show ?case
  proof (cases i)
    case 0
    with Cons.prems show ?thesis by simp
  next
    case (Suc j)
    with Cons.prems have "j < length bs" "render_block rt (bs ! j) (Suc n + j) message 0 = Inl e"
      by simp_all
    from Cons.IH [OF this] obtain e' where "render_blocks rt message (enumerate (Suc n) bs) = Inl e'"
      by blast
    then show ?thesis
      by (cases "render_block rt b n message 0") simp_all
  qed
qed

lemma render_blocks_first_error:
  "i < length blocks \<Longrightarrow> render_block rt (blocks ! i) (n + i) message 0 = Inl e \<Longrightarrow>
   \<forall>j<i. \<exists>h. render_block rt (blocks ! j) (n + j) message 0 = Inr h \<Longrightarrow>
   render_blocks rt message (enumerate n blocks) = Inl e"
proof (induction blocks arbitrary: n i)
  case Nil
  then show ?case by simp
next
  case (Cons b bs)
  show ?case
  proof (cases i)
    case 0
    with Cons.prems show ?thesis by simp
  next
    case (Suc j)
    with Cons.prems have 1: "j < length bs" "render_block rt (bs ! j) (Suc n + j) message 0 = Inl e"
      by simp_all
    have 2: "\<forall>k<j. \<exists>h. render_block rt (bs ! k) (Suc n + k) message 0 = Inr h"
    proof (intro allI impI)
      fix k assume "k < j"
      then have "Suc k < i" using Suc by simp
      with Cons.prems(3) obtain h where "render_block rt ((b # bs) ! Suc k) (n + Suc k) message 0 = Inr h"
        by blast
      then show "\<exists>h. render_block rt (bs ! k) (Suc n + k) message 0 = Inr h" by simp
    qed
    from Cons.prems(3) Suc obtain h0 where "render_block rt ((b # bs) ! 0) (n + 0) message 0 = Inr h0"
      by (metis zero_less_Suc)
    then have "render_block rt b n message 0 = Inr h0" by simp
    with Cons.IH [OF 1 2] show ?thesis by simp
  qed
qed

text \<open>The index badge in the shell of a block.\<close>

lemma sublist_after: "sublist xs ys \<Longrightarrow> sublist xs (ps @ ys)"
  unfolding sublist_def by (metis append.assoc)

lemma sublist_badge_here: "sublist (b @ i) ((s @ b) @ i @ r)"
  unfolding sublist_def by (metis append.assoc)

lemma block_head_badge:
  "sublist (''Block '' @ index) (block_head color icon label_start type_label tooltip_content index)"
proof -
  have split: "''                Block '' = ''                '' @ ''Block ''" by simp
  show ?thesis
    unfolding block_head_def split
    by (rule sublist_badge_here | rule sublist_after)+
qed

lemma block_shell_badge:
  "sublist (''Block '' @ show_nat index) (block_shell color icon tooltip_text type_label index)"
  unfolding block_shell_def Let_def
  by (rule sublist_order.order_trans [OF block_head_badge sublist_append_rightI])

lemma render_block_shape:
  assumes "render_block rt block index message depth = Inr frag"
  shows "\<exists>color icon tooltip_text type_label body.
           frag = block_shell color icon tooltip_text type_label index @ body @ block_close"
proof -
  from assms obtain c ic tt tl body where
    "frag = block_shell c ic tt tl index @ body @ block_close"
    unfolding render_block_def by (auto simp: bnd_eq_Inr)
  then show ?thesis by blast
qed

lemma render_block_badge:
  assumes "render_block rt block index message depth = Inr frag"
  shows "sublist (''Block '' @ show_nat index) frag"
proof -
  from render_block_shape [OF assms] obtain c ic tt tl body where
    "frag = block_shell c ic tt tl index @ body @ block_close" by blast
  then show ?thesis
    using sublist_order.order_trans [OF block_shell_badge sublist_append_rightI] by blast
qed

text \<open>The definitions that evaluate the rendering of a concrete message.\<close>

lemmas eval_defs = build_html_def build_header_def render_block_def render_body_def
  render_text_block_def render_thinking_block_def is_empty_text_def has_citations_def
  get_block_color_def get_block_icon_def get_block_tooltip_text_def dict_get_def
  type_label_of_def hasattr_def enumerate_eq_zip
  example_message_def

text \<open>
  Claim C1. When the content of a message is a list of \<open>N\<close> blocks and the document
  is built, the document is the header, the opening of the content section, \<open>N\<close>
  fragments and the closing; the fragment at position \<open>i\<close> is the rendering of the
  block at position \<open>i\<close> of the content and carries the badge \<^verbatim>\<open>Block i\<close>, counted
  from 0.
\<close>

theorem build_html_fragments_in_order:
  assumes "getattr message ''content'' = Inr (VList blocks)"
      and "build_html rt message = Inr doc"
  shows "\<exists>header frags.
           build_header rt message = Inr header \<and>
           length frags = length blocks \<and>
           doc = header @ content_open @ concat frags @ content_close \<and>
           (\<forall>i<length blocks.
              render_block rt (blocks ! i) i message 0 = Inr (frags ! i) \<and>
              sublist (''Block '' @ show_nat i) (frags ! i))"
proof -
  from assms obtain header body where
    header: "build_header rt message = Inr header" and
    body: "render_blocks rt message (enumerate 0 blocks) = Inr body" and
    doc: "doc = header @ content_open @ body @ content_close"
    unfolding build_html_def by (auto simp: bnd_eq_Inr)
  from render_blocks_fragments [OF body] obtain frags where
    frags: "length frags = length blocks" "body = concat frags"
      "\<forall>i<length blocks. render_block rt (blocks ! i) (0 + i) message 0 = Inr (frags ! i)"
    by blast
  have "\<forall>i<length blocks.
          render_block rt (blocks ! i) i message 0 = Inr (frags ! i) \<and>
          sublist (''Block '' @ show_nat i) (frags ! i)"
    using frags(3) render_block_badge by fastforce
  with header frags(1,2) doc show ?thesis by blast
qed

lemma two_block_message_renders:
  "\<exists>doc. build_html example_runtime two_block_message = Inr doc"
  by (simp add: eval_defs two_block_message_def thinking_block_def plain_block_def strip_def py_isspace_def)

text \<open>The two blocks of the example message give two fragments, badged 0 and 1.\<close>

theorem build_html_fragments_in_order_witness:
  "\<exists>header f0 f1.
     build_html example_runtime two_block_message = Inr (header @ content_open @ f0 @ f1 @ content_close) \<and>
     render_block example_runtime thinking_block 0 two_block_message 0 = Inr f0 \<and>
     render_block example_runtime plain_block 1 two_block_message 0 = Inr f1 \<and>
     sublist ''Block 0'' f0 \<and> sublist ''Block 1'' f1"
proof -
  obtain doc where doc: "build_html example_runtime two_block_message = Inr doc"
    using two_block_message_renders by blast
  have content: "getattr two_block_message ''content'' = Inr (VList [thinking_block, plain_block])"
    by (simp add: two_block_message_def example_message_def)
  from build_html_fragments_in_order [OF content doc] obtain header frags where
    fr: "length frags = length [thinking_block, plain_block]"
        "doc = header @ content_open @ concat frags @ content_close"
        "\<forall>i<length [thinking_block, plain_block].
           render_block example_runtime ([thinking_block, plain_block] ! i) i two_block_message 0 = Inr (frags ! i) \<and>
           sublist (''Block '' @ show_nat i) (frags ! i)"
    by blast
  from fr(1) obtain f0 f1 where frags: "frags = [f0, f1]"
    by (auto simp: length_Suc_conv)
  have n0: "show_nat 0 = ''0''" and n1: "show_nat 1 = ''1''"
    by (simp_all add: show_nat.simps digit_char_def)
  from fr(3) have "render_block example_runtime thinking_block 0 two_block_message 0 = Inr f0 \<and>
      sublist (''Block '' @ show_nat 0) f0"
    unfolding frags by (auto dest: spec [of _ 0])
  moreover from fr(3) have "render_block example_runtime plain_block 1 two_block_message 0 = Inr f1 \<and>
      sublist (''Block '' @ show_nat 1) f1"
    unfolding frags by (auto dest: spec [of _ 1])
  ultimately show ?thesis
    using doc fr(2) unfolding frags n0 n1 by auto
qed

section \<open>Missing fields abort the render\<close>

lemma getattr_Inl_iff: "(\<exists>e. getattr v a = Inl e) \<longleftrightarrow> getattr v a = Inl (no_attribute v a)"
  by (cases v) (auto split: option.splits)

lemma not_hasattr: "\<not> hasattr v a \<longleftrightarrow> getattr v a = Inl (no_attribute v a)"
  unfolding hasattr_def using getattr_Inl_iff [of v a] by (auto split: sum.splits)

lemma hasattr_iff: "hasattr v a \<longleftrightarrow> (\<exists>x. getattr v a = Inr x)"
  unfolding hasattr_def by (auto split: sum.splits)

lemma getattr_cases:
  obtains (present) x where "getattr v a = Inr x" | (missing) "getattr v a = Inl (no_attribute v a)"
  using getattr_Inl_iff [of v a] by (cases "getattr v a") auto

lemma render_body_missing_field:
  assumes "list_ex (\<lambda>f. \<not> hasattr block f) (required_fields t)"
  shows "\<exists>f. render_body rt t block message d = Inl (no_attribute block f)"
proof -
  consider "t = VStr ''text''" | "t = VStr ''tool_use''" | "t = VStr ''tool_result''"
    | "t = VStr ''server_tool_use''" | "t = VStr ''web_search_tool_result''" | "t = VStr ''image''"
    | "t = VStr ''thinking''" | "t = VStr ''document''"
    using assms unfolding required_fields_def by (auto split: if_splits)
  then show ?thesis
  proof cases
    case 1
    with assms show ?thesis
      by (auto simp: required_fields_def render_body_def render_text_block_def not_hasattr)
  next
    case 2
    with assms show ?thesis
      by (cases block "''name''" rule: getattr_cases; cases block "''id''" rule: getattr_cases)
         (auto simp: required_fields_def render_body_def render_tool_use_block_def not_hasattr)
  next
    case 3
    with assms show ?thesis
      by (cases block "''tool_use_id''" rule: getattr_cases)
         (auto simp: required_fields_def render_body_def render_tool_result_block_def not_hasattr Let_def)
  next
    case 4
    with assms show ?thesis
      by (cases block "''name''" rule: getattr_cases; cases block "''id''" rule: getattr_cases)
         (auto simp: required_fields_def render_body_def render_server_tool_use_block_def not_hasattr)
  next
    case 5
    with assms show ?thesis
      by (auto simp: required_fields_def render_body_def render_web_search_result_block_def not_hasattr)
  next
    case 6
    with assms show ?thesis
      by (auto simp: required_fields_def render_body_def render_image_block_def not_hasattr)
  next
    case 7
    with assms show ?thesis
      by (auto simp: required_fields_def render_body_def render_thinking_block_def not_hasattr)
  next
    case 8
    with assms show ?thesis
      by (auto simp: required_fields_def render_body_def render_document_block_def not_hasattr)
  qed
qed

lemma required_fields_known:
  "required_fields t \<noteq> [] \<Longrightarrow>
   \<exists>c i tt l. get_block_color t = Inr c \<and> get_block_icon t = Inr i \<and>
     get_block_tooltip_text t = Inr tt \<and> type_label_of t = Inr l"
  unfolding required_fields_def
  by (auto split: if_splits
      simp: get_block_color_def get_block_icon_def get_block_tooltip_text_def dict_get_def type_label_of_def)

lemma render_block_missing_field:
  assumes "lacks_required_field block"
  shows "\<exists>f. render_block rt block i message d = Inl (no_attribute block f)"
proof (cases block "''type''" rule: getattr_cases)
  case missing
  then show ?thesis by (auto simp: render_block_def)
next
  case (present t)
  with assms have ex: "list_ex (\<lambda>f. \<not> hasattr block f) (required_fields t)"
    by (simp add: lacks_required_field_def)
  then have "required_fields t \<noteq> []" by auto
  from required_fields_known [OF this] obtain c ic tt l where
    "get_block_color t = Inr c" "get_block_icon t = Inr ic"
    "get_block_tooltip_text t = Inr tt" "type_label_of t = Inr l" by blast
  moreover from render_body_missing_field [OF ex] obtain f where
    "render_body rt t block message d = Inl (no_attribute block f)" by blast
  ultimately show ?thesis using present by (auto simp: render_block_def)
qed

text \<open>
  Claim C7. When a block of the message lacks its type or a field that the
  renderer of its type reads, \<^verbatim>\<open>visualize_message\<close> raises and the display sink is
  as it was: nothing is shown, also not the blocks before the failing one. When
  the header and the earlier blocks render, the exception that leaves the call
  is the \<^verbatim>\<open>AttributeError\<close> of that block.
\<close>

theorem missing_field_aborts_render:
  assumes "getattr message ''content'' = Inr (VList blocks)"
      and "i < length blocks"
      and "lacks_required_field (blocks ! i)"
  shows "(\<exists>e. visualize_message rt message sink = (Inl e, sink)) \<and>
         ((\<exists>h. build_header rt message = Inr h) \<and>
          (\<forall>j<i. \<exists>h. render_block rt (blocks ! j) j message 0 = Inr h) \<longrightarrow>
          (\<exists>f. visualize_message rt message sink = (Inl (no_attribute (blocks ! i) f), sink)))"
proof -
  from render_block_missing_field [OF assms(3)] obtain f where
    "render_block rt (blocks ! i) i message 0 = Inl (no_attribute (blocks ! i) f)"
    by blast
  then have f: "render_block rt (blocks ! i) (0 + i) message 0 = Inl (no_attribute (blocks ! i) f)"
    by simp
  from render_blocks_error [OF assms(2) f] obtain e' where
    e': "render_blocks rt message (enumerate 0 blocks) = Inl e'" by blast
  then have "\<exists>e. build_html rt message = Inl e"
    using assms(1) by (cases "build_header rt message") (simp_all add: build_html_def)
  then have 1: "\<exists>e. visualize_message rt message sink = (Inl e, sink)"
    by (auto simp: visualize_message_def)
  have 2: "\<exists>f. visualize_message rt message sink = (Inl (no_attribute (blocks ! i) f), sink)"
    if h: "\<exists>h. build_header rt message = Inr h"
      and ok: "\<forall>j<i. \<exists>h. render_block rt (blocks ! j) j message 0 = Inr h"
  proof -
    from ok have "\<forall>j<i. \<exists>h. render_block rt (blocks ! j) (0 + j) message 0 = Inr h" by simp
    from render_blocks_first_error [OF assms(2) f this]
    have "render_blocks rt message (enumerate 0 blocks) = Inl (no_attribute (blocks ! i) f)" .
    with h assms(1) have "build_html rt message = Inl (no_attribute (blocks ! i) f)"
      by (auto simp: build_html_def)
    then show ?thesis by (auto simp: visualize_message_def)
  qed
  from 1 2 show ?thesis by blast
qed

text \<open>
  A text block without \<^verbatim>\<open>text\<close> after a thinking block: the error leaves the call
  and the sink keeps its one earlier document.
\<close>

theorem missing_field_aborts_render_witness:
  "visualize_message example_runtime broken_message [''shown before''] =
     (Inl (no_attribute broken_block ''text''), [''shown before''])"
proof -
  have content: "getattr broken_message ''content'' = Inr (VList [thinking_block, broken_block])"
    by (simp add: broken_message_def example_message_def)
  have i: "1 < length [thinking_block, broken_block]" by simp
  have lacks: "lacks_required_field ([thinking_block, broken_block] ! 1)"
    by (simp add: lacks_required_field_def required_fields_def broken_block_def hasattr_def no_attribute_def)
  have header: "\<exists>h. build_header example_runtime broken_message = Inr h"
    by (simp add: build_header_def broken_message_def example_message_def)
  have earlier: "\<forall>j<1. \<exists>h. render_block example_runtime ([thinking_block, broken_block] ! j) j broken_message 0 = Inr h"
    by (simp add: eval_defs thinking_block_def)
  from missing_field_aborts_render [OF content i lacks, of example_runtime "[''shown before'']"] header earlier
  obtain f where f: "visualize_message example_runtime broken_message [''shown before''] =
      (Inl (no_attribute ([thinking_block, broken_block] ! 1) f), [''shown before''])"
    by blast
  have "render_block example_runtime broken_block 1 broken_message 0 = Inl (no_attribute broken_block ''text'')"
    by (simp add: eval_defs broken_block_def)
  then have "visualize_message example_runtime broken_message [''shown before''] =
      (Inl (no_attribute broken_block ''text''), [''shown before''])"
    by (simp add: visualize_message_def build_html_def build_header_def broken_message_def
        example_message_def enumerate_eq_zip eval_defs thinking_block_def)
  with f show ?thesis by simp
qed

section \<open>Text blocks with citations\<close>

text \<open>The loop over the citations yields one entry for each, in order.\<close>

lemma render_citations_entries:
  "render_citations rt m (enumerate n cs) = Inr info \<Longrightarrow>
   \<exists>es. length es = length cs \<and> info = concat es \<and>
     (\<forall>i<length cs. citation_entry rt m (n + i) (cs ! i) = Inr (es ! i))"
proof (induction cs arbitrary: n info)
  case Nil
  then show ?case by simp
next
  case (Cons c cs)
  from Cons.prems obtain e rest where
    e: "citation_entry rt m n c = Inr e" and
    rest: "render_citations rt m (enumerate (Suc n) cs) = Inr rest" and
    info: "info = e @ rest"
    by (auto simp: bnd_eq_Inr)
  from Cons.IH [OF rest] obtain es where
    es: "length es = length cs" "rest = concat es"
        "\<forall>i<length cs. citation_entry rt m (Suc n + i) (cs ! i) = Inr (es ! i)"
    by blast
  have "\<forall>i<length (c # cs). citation_entry rt m (n + i) ((c # cs) ! i) = Inr ((e # es) ! i)"
  proof (intro allI impI)
    fix i assume "i < length (c # cs)"
    then show "citation_entry rt m (n + i) ((c # cs) ! i) = Inr ((e # es) ! i)"
      using e es(3) by (cases i) simp_all
  qed
  with es(1,2) info show ?case
    by (intro exI [of _ "e # es"]) simp
qed

lemma sublist_concat_nth: "i < length es \<Longrightarrow> sublist (es ! i) (concat es)"
proof (induction es arbitrary: i)
  case Nil
  then show ?case by simp
next
  case (Cons e es)
  then show ?case
    by (cases i) (auto intro: sublist_after)
qed

lemma sublist_here: "sublist xs ys \<Longrightarrow> sublist xs (ys @ r)"
  unfolding sublist_def by (metis append.assoc)

lemma cited_text_html_info: "sublist info (cited_text_html text info)"
  unfolding cited_text_html_def
  by (rule sublist_append_rightI | rule sublist_after)+

lemma render_text_block_cited:
  assumes "render_text_block rt block message = Inr html"
      and "getattr block ''citations'' = Inr (VList cs)"
      and "cs \<noteq> []"
  shows "\<exists>m text es.
           build_url_to_index rt message = Inr m \<and>
           getattr block ''text'' = Inr text \<and>
           length es = length cs \<and>
           html = cited_text_html (py_str rt text) (concat es) \<and>
           (\<forall>i<length cs. citation_entry rt m i (cs ! i) = Inr (es ! i))"
proof -
  have hc: "has_citations block"
    using assms(2,3) by (simp add: has_citations_def)
  from assms(1) hc assms(2) obtain tx m info where
    tx: "getattr block ''text'' = Inr tx" and
    m: "build_url_to_index rt message = Inr m" and
    info: "render_citations rt m (enumerate 0 cs) = Inr info" and
    html: "html = cited_text_html (py_str rt tx) info"
    unfolding render_text_block_def by (auto simp: bnd_eq_Inr)
  from render_citations_entries [OF info] obtain es where
    "length es = length cs" "info = concat es"
    "\<forall>i<length cs. citation_entry rt m (0 + i) (cs ! i) = Inr (es ! i)"
    by blast
  with tx m html show ?thesis by auto
qed

lemma entry_in_cited_html:
  "i < length es \<Longrightarrow> sublist (es ! i) (cited_text_html text (concat es))"
  using sublist_order.order_trans [OF sublist_concat_nth cited_text_html_info] by blast

lemma citation_number_label:
  "citation_number m idx c = Inr n \<Longrightarrow> n = citation_label m idx c"
  unfolding citation_number_def citation_label_def url_key_def
  by (auto simp: bnd_eq_Inr hasattr_iff not_hasattr split: if_splits option.splits sum.splits)

lemma citation_entry_label:
  assumes "citation_entry rt m idx c = Inr e" and "getattr c ''cited_text'' = Inr ct"
  shows "\<exists>q. excerpt ct = Inr q \<and> citation_number m idx c = Inr (citation_label m idx c) \<and>
             e = citation_html (show_nat (citation_label m idx c)) (py_str rt q)"
proof -
  have "hasattr c ''cited_text''" using assms(2) by (simp add: hasattr_def)
  with assms obtain q n where
    "excerpt ct = Inr q" "citation_number m idx c = Inr n"
    "e = citation_html (show_nat n) (py_str rt q)"
    unfolding citation_entry_def by (auto simp: bnd_eq_Inr)
  then show ?thesis using citation_number_label by blast
qed

section \<open>The URL-to-index dictionary\<close>

text \<open>
  An entry of the dictionary that the loop over the results of one block adds is
  the position of a result with that URL, counted from \<open>n + 1\<close>; and every URL
  of a result gets an entry.
\<close>

lemma index_results_sound:
  "index_results m (enumerate n rs) = Inr m' \<Longrightarrow> m' k = Some j \<Longrightarrow>
   m k = Some j \<or> (n < j \<and> j \<le> n + length rs \<and> url_key (rs ! (j - Suc n)) = Some k)"
proof (induction rs arbitrary: m n)
  case Nil
  then show ?case by simp
next
  case (Cons r rs)
  show ?case
  proof (cases "hasattr r ''url''")
    case False
    with Cons.prems have "index_results m (enumerate (Suc n) rs) = Inr m'" by simp
    from Cons.IH [OF this Cons.prems(2)] show ?thesis
    proof
      assume "m k = Some j" then show ?thesis by simp
    next
      assume a: "Suc n < j \<and> j \<le> Suc n + length rs \<and> url_key (rs ! (j - Suc (Suc n))) = Some k"
      then have "j - Suc n = Suc (j - Suc (Suc n))" by arith
      with a show ?thesis by simp
    qed
  next
    case True
    with Cons.prems obtain u k0 where
      u: "getattr r ''url'' = Inr u" and k0: "py_key u = Inr k0" and
      rest: "index_results (m(k0 \<mapsto> n + 1)) (enumerate (Suc n) rs) = Inr m'"
      by (auto simp: bnd_eq_Inr)
    from Cons.IH [OF rest Cons.prems(2)] show ?thesis
    proof
      assume upd: "(m(k0 \<mapsto> n + 1)) k = Some j"
      show ?thesis
      proof (cases "k = k0")
        case True
        with upd have "j = n + 1" by simp
        moreover have "url_key r = Some k" using u k0 True by (simp add: url_key_def)
        ultimately show ?thesis by simp
      next
        case False
        with upd show ?thesis by simp
      qed
    next
      assume a: "Suc n < j \<and> j \<le> Suc n + length rs \<and> url_key (rs ! (j - Suc (Suc n))) = Some k"
      then have "j - Suc n = Suc (j - Suc (Suc n))" by arith
      with a show ?thesis by simp
    qed
  qed
qed

lemma index_results_dom:
  "index_results m (enumerate n rs) = Inr m' \<Longrightarrow>
   dom m' = dom m \<union> {k. \<exists>r\<in>set rs. url_key r = Some k}"
proof (induction rs arbitrary: m n)
  case Nil
  then show ?case by simp
next
  case (Cons r rs)
  show ?case
  proof (cases "hasattr r ''url''")
    case False
    then have "url_key r = None" by (simp add: url_key_def not_hasattr)
    moreover from False Cons.prems have "index_results m (enumerate (Suc n) rs) = Inr m'" by simp
    ultimately show ?thesis using Cons.IH by auto
  next
    case True
    with Cons.prems obtain u k0 where
      u: "getattr r ''url'' = Inr u" and k0: "py_key u = Inr k0" and
      rest: "index_results (m(k0 \<mapsto> n + 1)) (enumerate (Suc n) rs) = Inr m'"
      by (auto simp: bnd_eq_Inr)
    have "url_key r = Some k0" using u k0 by (simp add: url_key_def)
    then have "{k. \<exists>r'\<in>set (r # rs). url_key r' = Some k} =
        insert k0 {k. \<exists>r'\<in>set rs. url_key r' = Some k}"
      by auto
    moreover have "dom (m(k0 \<mapsto> n + 1)) = insert k0 (dom m)"
      unfolding dom_def by auto
    moreover note Cons.IH [OF rest]
    ultimately show ?thesis by (simp only: Un_insert_left Un_insert_right)
  qed
qed

lemma search_result_at_Cons:
  "search_result_at rt (b # bs) k j \<longleftrightarrow>
     (getattr b ''type'' = Inr (VStr ''web_search_tool_result'') \<and>
      (\<exists>rs. bnd (getattr b ''content'') (py_iter rt) = Inr rs \<and>
            0 < j \<and> j \<le> length rs \<and> url_key (rs ! (j - 1)) = Some k))
     \<or> search_result_at rt bs k j"
  unfolding search_result_at_def by (auto split: sum.splits)

lemma index_blocks_sound:
  "index_blocks rt m blocks = Inr m' \<Longrightarrow> m' k = Some j \<Longrightarrow>
   m k = Some j \<or> search_result_at rt blocks k j"
proof (induction blocks arbitrary: m)
  case Nil
  then show ?case by simp
next
  case (Cons b bs)
  show ?case
  proof (cases "hasattr b ''type'' \<and> getattr b ''type'' = Inr (VStr ''web_search_tool_result'')")
    case False
    with Cons.prems have "index_blocks rt m bs = Inr m'" by auto
    from Cons.IH [OF this Cons.prems(2)] show ?thesis
      by (auto simp: search_result_at_Cons)
  next
    case True
    with Cons.prems obtain c rs m1 where
      c: "getattr b ''content'' = Inr c" and rs: "py_iter rt c = Inr rs" and
      m1: "index_results m (enumerate 0 rs) = Inr m1" and
      rest: "index_blocks rt m1 bs = Inr m'"
      by (auto simp: bnd_eq_Inr)
    from Cons.IH [OF rest Cons.prems(2)] show ?thesis
    proof
      assume "m1 k = Some j"
      from index_results_sound [OF m1 this] show ?thesis
      proof
        assume "m k = Some j" then show ?thesis by simp
      next
        assume "0 < j \<and> j \<le> 0 + length rs \<and> url_key (rs ! (j - Suc 0)) = Some k"
        with True c rs show ?thesis by (simp add: search_result_at_Cons)
      qed
    next
      assume "search_result_at rt bs k j"
      then show ?thesis by (simp add: search_result_at_Cons)
    qed
  qed
qed

lemma index_blocks_dom:
  "index_blocks rt m blocks = Inr m' \<Longrightarrow> search_result_at rt blocks k j \<Longrightarrow> k \<in> dom m'"
  and index_blocks_mono: "index_blocks rt m blocks = Inr m' \<Longrightarrow> k \<in> dom m \<Longrightarrow> k \<in> dom m'"
proof (induction blocks arbitrary: m)
  case Nil
  { case 1 then show ?case by (simp add: search_result_at_def) }
  { case 2 then show ?case by simp }
next
  case (Cons b bs)
  {
    case 1
    show ?case
    proof (cases "hasattr b ''type'' \<and> getattr b ''type'' = Inr (VStr ''web_search_tool_result'')")
      case False
      with 1 have "index_blocks rt m bs = Inr m'" "search_result_at rt bs k j"
        by (auto simp: search_result_at_Cons hasattr_iff)
      then show ?thesis by (rule Cons.IH(1))
    next
      case True
      with 1(1) obtain c rs m1 where
        c: "getattr b ''content'' = Inr c" and rs: "py_iter rt c = Inr rs" and
        m1: "index_results m (enumerate 0 rs) = Inr m1" and
        rest: "index_blocks rt m1 bs = Inr m'"
        by (auto simp: bnd_eq_Inr)
      from 1(2) consider
        (here) "0 < j" "j \<le> length rs" "url_key (rs ! (j - 1)) = Some k"
        | (later) "search_result_at rt bs k j"
        using c rs by (auto simp: search_result_at_Cons)
      then show ?thesis
      proof cases
        case here
        then have "rs ! (j - 1) \<in> set rs" by simp
        with here(3) have "k \<in> dom m1" using index_results_dom [OF m1] by auto
        with rest show ?thesis by (rule Cons.IH(2))
      next
        case later
        with rest show ?thesis by (rule Cons.IH(1))
      qed
    qed
  }
  {
    case 2
    show ?case
    proof (cases "hasattr b ''type'' \<and> getattr b ''type'' = Inr (VStr ''web_search_tool_result'')")
      case False
      with 2 have "index_blocks rt m bs = Inr m'" by auto
      then show ?thesis using 2(2) by (rule Cons.IH(2))
    next
      case True
      with 2(1) obtain c rs m1 where
        m1: "index_results m (enumerate 0 rs) = Inr m1" and
        rest: "index_blocks rt m1 bs = Inr m'"
        by (auto simp: bnd_eq_Inr)
      from 2(2) have "k \<in> dom m1" using index_results_dom [OF m1] by auto
      with rest show ?thesis by (rule Cons.IH(2))
    qed
  }
qed

lemma getattr_truthy: "getattr v a = Inr x \<Longrightarrow> truthy v"
  by (cases v) simp_all

lemma build_url_to_index_entries:
  assumes "getattr message ''content'' = Inr (VList blocks)"
      and "build_url_to_index rt message = Inr m"
  shows "(\<forall>k j. m k = Some j \<longrightarrow> search_result_at rt blocks k j) \<and>
         (\<forall>k j. search_result_at rt blocks k j \<longrightarrow> k \<in> dom m)"
proof -
  from assms have ib: "index_blocks rt Map.empty blocks = Inr m"
    by (simp add: build_url_to_index_def getattr_truthy)
  show ?thesis
    using index_blocks_sound [OF ib] index_blocks_dom [OF ib] by fastforce
qed

section \<open>Citation numbers\<close>

text \<open>
  Claim C2. In a rendered text block with citations, a citation that has a
  \<^verbatim>\<open>cited_text\<close> gets an entry, which is part of the rendering, with the number
  that the specification gives: the entry of the URL-to-index dictionary for the
  citation's URL when there is one, else the citation's position in the list
  counted from 1. The dictionary holds exactly the URLs of the results of the
  message's web-search blocks, each with a position, counted from 1, of a result
  with that URL.
\<close>

theorem citation_labelled_from_search_results:
  assumes "getattr message ''content'' = Inr (VList blocks)"
      and "render_text_block rt block message = Inr html"
      and "getattr block ''citations'' = Inr (VList cs)"
      and "i < length cs"
      and "getattr (cs ! i) ''cited_text'' = Inr ct"
  shows "\<exists>m q.
           build_url_to_index rt message = Inr m \<and>
           (\<forall>k j. m k = Some j \<longrightarrow> search_result_at rt blocks k j) \<and>
           (\<forall>k j. search_result_at rt blocks k j \<longrightarrow> k \<in> dom m) \<and>
           citation_entry rt m i (cs ! i) =
             Inr (citation_html (show_nat (citation_label m i (cs ! i))) q) \<and>
           sublist (citation_html (show_nat (citation_label m i (cs ! i))) q) html"
proof -
  from assms(4) have "cs \<noteq> []" by auto
  from render_text_block_cited [OF assms(2,3) this] obtain m tx es where
    m: "build_url_to_index rt message = Inr m" and
    es: "length es = length cs" "html = cited_text_html (py_str rt tx) (concat es)"
        "\<forall>i<length cs. citation_entry rt m i (cs ! i) = Inr (es ! i)"
    by blast
  from es(3) assms(4) have entry: "citation_entry rt m i (cs ! i) = Inr (es ! i)" by blast
  from citation_entry_label [OF entry assms(5)] obtain q where
    q: "es ! i = citation_html (show_nat (citation_label m i (cs ! i))) (py_str rt q)"
    by blast
  have "sublist (es ! i) html"
    unfolding es(2) using assms(4) es(1) by (simp add: entry_in_cited_html)
  with entry q build_url_to_index_entries [OF assms(1) m] m show ?thesis
    by (intro exI [of _ m] exI [of _ "py_str rt q"]) simp
qed

text \<open>
  Claim C3. Two citations with the same URL, in two rendered text blocks of one
  message, the URL being the URL of a web-search result of the message: both
  entries carry the same number, the dictionary's entry for that URL.
\<close>

theorem citation_numbering_stable:
  assumes "getattr message ''content'' = Inr (VList blocks)"
      and "render_text_block rt block1 message = Inr html1"
      and "getattr block1 ''citations'' = Inr (VList cs1)"
      and "i1 < length cs1"
      and "getattr (cs1 ! i1) ''cited_text'' = Inr ct1"
      and "render_text_block rt block2 message = Inr html2"
      and "getattr block2 ''citations'' = Inr (VList cs2)"
      and "i2 < length cs2"
      and "getattr (cs2 ! i2) ''cited_text'' = Inr ct2"
      and "getattr (cs1 ! i1) ''url'' = Inr u"
      and "getattr (cs2 ! i2) ''url'' = Inr u"
      and "py_key u = Inr k"
      and "search_result_at rt blocks k j"
  shows "\<exists>m n q1 q2.
           build_url_to_index rt message = Inr m \<and> m k = Some n \<and>
           citation_entry rt m i1 (cs1 ! i1) = Inr (citation_html (show_nat n) q1) \<and>
           sublist (citation_html (show_nat n) q1) html1 \<and>
           citation_entry rt m i2 (cs2 ! i2) = Inr (citation_html (show_nat n) q2) \<and>
           sublist (citation_html (show_nat n) q2) html2"
proof -
  from assms(4) have ne1: "cs1 \<noteq> []" by auto
  from assms(8) have ne2: "cs2 \<noteq> []" by auto
  from render_text_block_cited [OF assms(2,3) ne1] obtain m tx1 es1 where
    m: "build_url_to_index rt message = Inr m" and
    es1: "length es1 = length cs1" "html1 = cited_text_html (py_str rt tx1) (concat es1)"
         "\<forall>i<length cs1. citation_entry rt m i (cs1 ! i) = Inr (es1 ! i)"
    by blast
  from render_text_block_cited [OF assms(6,7) ne2] m obtain tx2 es2 where
    es2: "length es2 = length cs2" "html2 = cited_text_html (py_str rt tx2) (concat es2)"
         "\<forall>i<length cs2. citation_entry rt m i (cs2 ! i) = Inr (es2 ! i)"
    by auto
  from build_url_to_index_entries [OF assms(1) m] assms(13) obtain n where n: "m k = Some n"
    by blast
  have l1: "citation_label m i1 (cs1 ! i1) = n" and l2: "citation_label m i2 (cs2 ! i2) = n"
    using assms(10,11,12) n by (simp_all add: citation_label_def url_key_def)
  from es1(3) assms(4) have e1: "citation_entry rt m i1 (cs1 ! i1) = Inr (es1 ! i1)" by blast
  from es2(3) assms(8) have e2: "citation_entry rt m i2 (cs2 ! i2) = Inr (es2 ! i2)" by blast
  from citation_entry_label [OF e1 assms(5)] l1 obtain q1 where
    q1: "es1 ! i1 = citation_html (show_nat n) (py_str rt q1)" by auto
  from citation_entry_label [OF e2 assms(9)] l2 obtain q2 where
    q2: "es2 ! i2 = citation_html (show_nat n) (py_str rt q2)" by auto
  have s1: "sublist (es1 ! i1) html1"
    unfolding es1(2) using assms(4) es1(1) by (simp add: entry_in_cited_html)
  have s2: "sublist (es2 ! i2) html2"
    unfolding es2(2) using assms(8) es2(1) by (simp add: entry_in_cited_html)
  from m n e1 e2 s1 s2 show ?thesis
    unfolding q1 q2
    by (intro exI [of _ m] exI [of _ n] exI [of _ "py_str rt q1"] exI [of _ "py_str rt q2"]) simp
qed

section \<open>Quoted excerpts\<close>

lemma excerpt_string: "excerpt (VStr s) = Inr (VStr (quoted_excerpt s))"
  by (simp add: excerpt_def quoted_excerpt_def)

text \<open>
  Claim C6. In a rendered text block, the entry of a citation whose \<^verbatim>\<open>cited_text\<close>
  is the string \<open>s\<close> quotes the first 100 characters of \<open>s\<close> followed by \<^verbatim>\<open>...\<close> when
  \<open>s\<close> is longer than 100 characters, and \<open>s\<close> itself otherwise.
\<close>

theorem citation_excerpt_truncated:
  assumes "render_text_block rt block message = Inr html"
      and "getattr block ''citations'' = Inr (VList cs)"
      and "i < length cs"
      and "getattr (cs ! i) ''cited_text'' = Inr (VStr s)"
  shows "\<exists>m n.
           build_url_to_index rt message = Inr m \<and>
           citation_entry rt m i (cs ! i) =
             Inr (citation_html (show_nat n) (if 100 < length s then take 100 s @ ''...'' else s)) \<and>
           sublist (citation_html (show_nat n) (if 100 < length s then take 100 s @ ''...'' else s)) html"
proof -
  from assms(3) have "cs \<noteq> []" by auto
  from render_text_block_cited [OF assms(1,2) this] obtain m tx es where
    m: "build_url_to_index rt message = Inr m" and
    es: "length es = length cs" "html = cited_text_html (py_str rt tx) (concat es)"
        "\<forall>i<length cs. citation_entry rt m i (cs ! i) = Inr (es ! i)"
    by blast
  from es(3) assms(3) have entry: "citation_entry rt m i (cs ! i) = Inr (es ! i)" by blast
  from citation_entry_label [OF entry assms(4)]
  have q: "es ! i = citation_html (show_nat (citation_label m i (cs ! i))) (quoted_excerpt s)"
    by (auto simp: excerpt_string)
  have "sublist (es ! i) html"
    unfolding es(2) using assms(3) es(1) by (simp add: entry_in_cited_html)
  with entry q m show ?thesis
    unfolding quoted_excerpt_def
    by (intro exI [of _ m] exI [of _ "citation_label m i (cs ! i)"]) simp
qed

section \<open>Citations without a quoted text\<close>

text \<open>
  Claim C10. The citation part of a rendered text block is one entry for each
  citation of the list, in order. The entry of a citation without \<^verbatim>\<open>cited_text\<close>
  is empty, and the entry of a citation with \<^verbatim>\<open>cited_text\<close> whose URL is absent or
  not in the dictionary carries its position in the whole list, counted from 1,
  whatever the citations before it are.
\<close>

theorem citation_without_text_keeps_position:
  assumes "render_text_block rt block message = Inr html"
      and "getattr block ''citations'' = Inr (VList cs)"
      and "cs \<noteq> []"
  shows "\<exists>m tx es.
           build_url_to_index rt message = Inr m \<and>
           getattr block ''text'' = Inr tx \<and>
           length es = length cs \<and>
           html = cited_text_html (py_str rt tx) (concat es) \<and>
           (\<forall>i<length cs.
              (\<not> hasattr (cs ! i) ''cited_text'' \<longrightarrow> es ! i = []) \<and>
              (hasattr (cs ! i) ''cited_text'' \<and>
               (\<forall>k. url_key (cs ! i) = Some k \<longrightarrow> m k = None) \<longrightarrow>
               (\<exists>q. es ! i = citation_html (show_nat (i + 1)) q)))"
proof -
  from render_text_block_cited [OF assms] obtain m tx es where
    m: "build_url_to_index rt message = Inr m" and
    tx: "getattr block ''text'' = Inr tx" and
    es: "length es = length cs" "html = cited_text_html (py_str rt tx) (concat es)"
        "\<forall>i<length cs. citation_entry rt m i (cs ! i) = Inr (es ! i)"
    by blast
  have "(\<not> hasattr (cs ! i) ''cited_text'' \<longrightarrow> es ! i = []) \<and>
        (hasattr (cs ! i) ''cited_text'' \<and>
         (\<forall>k. url_key (cs ! i) = Some k \<longrightarrow> m k = None) \<longrightarrow>
         (\<exists>q. es ! i = citation_html (show_nat (i + 1)) q))" if i: "i < length cs" for i
  proof -
    from es(3) i have entry: "citation_entry rt m i (cs ! i) = Inr (es ! i)" by blast
    have 1: "es ! i = []" if "\<not> hasattr (cs ! i) ''cited_text''"
      using entry that by (simp add: citation_entry_def)
    have 2: "\<exists>q. es ! i = citation_html (show_nat (i + 1)) q"
      if h: "hasattr (cs ! i) ''cited_text''"
        and fallback: "\<forall>k. url_key (cs ! i) = Some k \<longrightarrow> m k = None"
    proof -
      from h obtain ct where "getattr (cs ! i) ''cited_text'' = Inr ct"
        by (auto simp: hasattr_iff)
      from citation_entry_label [OF entry this] obtain q where
        q: "es ! i = citation_html (show_nat (citation_label m i (cs ! i))) (py_str rt q)"
        by blast
      have "citation_label m i (cs ! i) = i + 1"
        using fallback by (auto simp: citation_label_def split: option.splits)
      with q show ?thesis by auto
    qed
    from 1 2 show ?thesis by blast
  qed
  with m tx es(1,2) show ?thesis by blast
qed

section \<open>The citation theorems on the examples\<close>

lemma show_nat_digit: "n < 10 \<Longrightarrow> show_nat n = [''0123456789'' ! n]"
  by (simp add: show_nat.simps digit_char_def)

lemma show_nat_two: "show_nat (Suc (Suc 0)) = ''2''"
  using show_nat_digit [of 2] by (simp add: numeral_2_eq_2)

lemmas citation_eval_defs = render_text_block_def is_empty_text_def has_citations_def
  hasattr_def enumerate_eq_zip citation_entry_def excerpt_def
  citation_number_def strip_def py_isspace_def

lemma search_message_content:
  "getattr search_message ''content'' = Inr (VList [search_block, cited_block, second_cited_block])"
  by (simp add: search_message_def example_message_def)

lemma search_message_index:
  "build_url_to_index example_runtime search_message =
     Inr [VStr ''u1'' \<mapsto> 1, VStr ''u2'' \<mapsto> 2, VStr ''u3'' \<mapsto> 3]"
  by (simp add: build_url_to_index_def hasattr_def enumerate_eq_zip search_message_def
      example_message_def search_block_def cited_block_def second_cited_block_def
      numeral_2_eq_2 numeral_3_eq_3)

lemma cited_block_renders:
  "\<exists>html. render_text_block example_runtime cited_block search_message = Inr html"
  by (simp add: citation_eval_defs search_message_index cited_block_def)

lemma second_cited_block_renders:
  "\<exists>html. render_text_block example_runtime second_cited_block search_message = Inr html"
  by (simp add: citation_eval_defs search_message_index second_cited_block_def)

text \<open>
  The results have the URLs \<^verbatim>\<open>u1\<close>, \<^verbatim>\<open>u2\<close>, \<^verbatim>\<open>u3\<close>; the one citation of the block refers
  to \<^verbatim>\<open>u2\<close> and is numbered 2, not 1.
\<close>

theorem citation_labelled_from_search_results_witness:
  "\<exists>html. render_text_block example_runtime cited_block search_message = Inr html \<and>
          sublist (citation_html ''2'' ''rain today'') html"
proof -
  obtain html where html: "render_text_block example_runtime cited_block search_message = Inr html"
    using cited_block_renders by blast
  have cs: "getattr cited_block ''citations'' =
      Inr (VList [VObj ''CitationsWebSearchResultLocation''
                    [(''cited_text'', VStr ''rain today''), (''url'', VStr ''u2'')]])"
    by (simp add: cited_block_def)
  have i: "0 < length [VObj ''CitationsWebSearchResultLocation''
                         [(''cited_text'', VStr ''rain today''), (''url'', VStr ''u2'')]]"
    by simp
  have ct: "getattr ([VObj ''CitationsWebSearchResultLocation''
                        [(''cited_text'', VStr ''rain today''), (''url'', VStr ''u2'')]] ! 0)
              ''cited_text'' = Inr (VStr ''rain today'')"
    by simp
  from citation_labelled_from_search_results [OF search_message_content html cs i ct]
  obtain m q where
    m: "build_url_to_index example_runtime search_message = Inr m" and
    entry: "citation_entry example_runtime m 0
              (VObj ''CitationsWebSearchResultLocation''
                 [(''cited_text'', VStr ''rain today''), (''url'', VStr ''u2'')]) =
            Inr (citation_html (show_nat (citation_label m 0
              (VObj ''CitationsWebSearchResultLocation''
                 [(''cited_text'', VStr ''rain today''), (''url'', VStr ''u2'')]))) q)" and
    sub: "sublist (citation_html (show_nat (citation_label m 0
              (VObj ''CitationsWebSearchResultLocation''
                 [(''cited_text'', VStr ''rain today''), (''url'', VStr ''u2'')]))) q) html"
    by auto
  from m have m_eq: "m = [VStr ''u1'' \<mapsto> 1, VStr ''u2'' \<mapsto> 2, VStr ''u3'' \<mapsto> 3]"
    by (simp add: search_message_index)
  have "citation_entry example_runtime m 0
          (VObj ''CitationsWebSearchResultLocation''
             [(''cited_text'', VStr ''rain today''), (''url'', VStr ''u2'')]) =
        Inr (citation_html ''2'' ''rain today'')"
    unfolding m_eq by (simp add: citation_eval_defs show_nat_digit)
  with entry sub have "sublist (citation_html ''2'' ''rain today'') html" by simp
  with html show ?thesis by blast
qed

text \<open>
  The citation of the first text block and the second citation of the second
  text block refer to \<^verbatim>\<open>u2\<close>: both are numbered 2.
\<close>

theorem citation_numbering_stable_witness:
  "\<exists>html1 html2 q1 q2.
     render_text_block example_runtime cited_block search_message = Inr html1 \<and>
     render_text_block example_runtime second_cited_block search_message = Inr html2 \<and>
     sublist (citation_html ''2'' q1) html1 \<and> sublist (citation_html ''2'' q2) html2"
proof -
  obtain html1 where h1: "render_text_block example_runtime cited_block search_message = Inr html1"
    using cited_block_renders by blast
  obtain html2 where h2: "render_text_block example_runtime second_cited_block search_message = Inr html2"
    using second_cited_block_renders by blast
  let ?c1 = "VObj ''CitationsWebSearchResultLocation''
               [(''cited_text'', VStr ''rain today''), (''url'', VStr ''u2'')]"
  let ?c0 = "VObj ''CitationCharLocation'' [(''cited_text'', VStr ''a page'')]"
  let ?c2 = "VObj ''CitationsWebSearchResultLocation''
               [(''cited_text'', VStr ''more rain''), (''url'', VStr ''u2'')]"
  have cs1: "getattr cited_block ''citations'' = Inr (VList [?c1])"
    by (simp add: cited_block_def)
  have cs2: "getattr second_cited_block ''citations'' = Inr (VList [?c0, ?c2])"
    by (simp add: second_cited_block_def)
  have i1: "0 < length [?c1]" and i2: "1 < length [?c0, ?c2]" by simp_all
  have ct1: "getattr ([?c1] ! 0) ''cited_text'' = Inr (VStr ''rain today'')" by simp
  have ct2: "getattr ([?c0, ?c2] ! 1) ''cited_text'' = Inr (VStr ''more rain'')" by simp
  have u1: "getattr ([?c1] ! 0) ''url'' = Inr (VStr ''u2'')" by simp
  have u2: "getattr ([?c0, ?c2] ! 1) ''url'' = Inr (VStr ''u2'')" by simp
  have k: "py_key (VStr ''u2'') = Inr (VStr ''u2'')" by simp
  have at: "search_result_at example_runtime [search_block, cited_block, second_cited_block] (VStr ''u2'') 2"
    by (simp add: search_result_at_def search_block_def url_key_def)
  from citation_numbering_stable [OF search_message_content h1 cs1 i1 ct1 h2 cs2 i2 ct2 u1 u2 k at]
  obtain m n q1 q2 where
    m: "build_url_to_index example_runtime search_message = Inr m" and n: "m (VStr ''u2'') = Some n" and
    s1: "sublist (citation_html (show_nat n) q1) html1" and
    s2: "sublist (citation_html (show_nat n) q2) html2"
    by blast
  from m have m_eq: "m = [VStr ''u1'' \<mapsto> 1, VStr ''u2'' \<mapsto> 2, VStr ''u3'' \<mapsto> 3]"
    by (simp add: search_message_index)
  from n have "n = 2" unfolding m_eq by simp
  with s1 s2 have "sublist (citation_html ''2'' q1) html1 \<and> sublist (citation_html ''2'' q2) html2"
    by (simp add: show_nat_digit)
  with h1 h2 show ?thesis by blast
qed

text \<open>A quoted text of 101 characters is cut to 100 characters and the marker.\<close>

theorem citation_excerpt_truncated_witness:
  "\<exists>html n. render_text_block example_runtime long_quote_block (example_message [long_quote_block]) = Inr html \<and>
     sublist (citation_html (show_nat n) (replicate 100 (CHR ''a'') @ ''...'')) html"
proof -
  let ?c = "VObj ''CitationCharLocation'' [(''cited_text'', VStr (replicate 101 (CHR ''a'')))]"
  have "\<exists>html. render_text_block example_runtime long_quote_block (example_message [long_quote_block]) = Inr html"
    by (simp add: citation_eval_defs build_url_to_index_def long_quote_block_def example_message_def)
  then obtain html where
    html: "render_text_block example_runtime long_quote_block (example_message [long_quote_block]) = Inr html"
    by blast
  have cs: "getattr long_quote_block ''citations'' = Inr (VList [?c])"
    by (simp add: long_quote_block_def)
  have i: "0 < length [?c]" by simp
  have ct: "getattr ([?c] ! 0) ''cited_text'' = Inr (VStr (replicate 101 (CHR ''a'')))" by simp
  from citation_excerpt_truncated [OF html cs i ct] obtain n where
    "sublist (citation_html (show_nat n) (replicate 100 (CHR ''a'') @ ''...'')) html"
    by auto
  with html show ?thesis by blast
qed

text \<open>
  The first citation has no quoted text and gives no entry; the second one is
  numbered 2, its position in the list, though it is the first entry.
\<close>

theorem citation_without_text_keeps_position_witness:
  "\<exists>q. render_text_block example_runtime gap_block (example_message [gap_block]) =
          Inr (cited_text_html ''Two.'' (citation_html ''2'' q))"
proof -
  let ?c0 = "VObj ''CitationPageLocation'' [(''document_index'', VInt 0)]"
  let ?c1 = "VObj ''CitationCharLocation'' [(''cited_text'', VStr ''a page'')]"
  have "\<exists>html. render_text_block example_runtime gap_block (example_message [gap_block]) = Inr html"
    by (simp add: citation_eval_defs build_url_to_index_def gap_block_def example_message_def)
  then obtain html where
    html: "render_text_block example_runtime gap_block (example_message [gap_block]) = Inr html"
    by blast
  have cs: "getattr gap_block ''citations'' = Inr (VList [?c0, ?c1])"
    by (simp add: gap_block_def)
  have ne: "[?c0, ?c1] \<noteq> []" by simp
  from citation_without_text_keeps_position [OF html cs ne] obtain m tx es where
    m: "build_url_to_index example_runtime (example_message [gap_block]) = Inr m" and
    tx: "getattr gap_block ''text'' = Inr tx" and
    len: "length es = length [?c0, ?c1]" and
    doc: "html = cited_text_html (py_str example_runtime tx) (concat es)" and
    each: "\<forall>i<length [?c0, ?c1].
              (\<not> hasattr ([?c0, ?c1] ! i) ''cited_text'' \<longrightarrow> es ! i = []) \<and>
              (hasattr ([?c0, ?c1] ! i) ''cited_text'' \<and>
               (\<forall>k. url_key ([?c0, ?c1] ! i) = Some k \<longrightarrow> m k = None) \<longrightarrow>
               (\<exists>q. es ! i = citation_html (show_nat (i + 1)) q))"
    by blast
  from len obtain e0 e1 where es: "es = [e0, e1]"
    by (auto simp: length_Suc_conv)
  from each have "e0 = []"
    unfolding es by (auto dest!: spec [of _ 0] simp: hasattr_def no_attribute_def)
  moreover from each have "\<exists>q. e1 = citation_html ''2'' q"
    unfolding es by (auto dest!: spec [of _ 1] simp: hasattr_def url_key_def no_attribute_def show_nat_two)
  then obtain q where "e1 = citation_html ''2'' q" by blast
  moreover from tx have "tx = VStr ''Two.''" by (simp add: gap_block_def)
  ultimately have "html = cited_text_html ''Two.'' (citation_html ''2'' q)"
    using doc es by simp
  with html show ?thesis by blast
qed

section \<open>The three renderings of a text block without citations\<close>

lemma strip_all_space: "\<forall>c\<in>set s. py_isspace c \<Longrightarrow> strip s = []"
  by (auto simp: strip_def dest: set_dropWhileD)

lemma strip_some_letter: "\<exists>c\<in>set s. \<not> py_isspace c \<Longrightarrow> strip s \<noteq> []"
proof -
  assume "\<exists>c\<in>set s. \<not> py_isspace c"
  then have "dropWhile py_isspace s \<noteq> []" by simp
  then have "\<exists>c\<in>set (rev (dropWhile py_isspace s)). \<not> py_isspace c"
    by (metis hd_dropWhile hd_in_set set_rev)
  then have "dropWhile py_isspace (rev (dropWhile py_isspace s)) \<noteq> []"
    by simp
  then show ?thesis by (simp add: strip_def)
qed

lemma render_text_block_plain:
  assumes "getattr block ''text'' = Inr (VStr s)" and "\<not> has_citations block"
  shows "render_text_block rt block message =
           Inr (if strip s = [] then empty_text_html
                else if 1000 < length s then long_text_html (show_nat (length s)) s
                else plain_text_html s)"
  using assms by (auto simp: render_text_block_def is_empty_text_def strip_def)

lemma empty_not_plain: "empty_text_html \<noteq> plain_text_html s"
  by (simp add: empty_text_html_def plain_text_html_def)

lemma empty_not_long: "empty_text_html \<noteq> long_text_html n s"
  by (simp add: empty_text_html_def long_text_html_def)

lemma plain_not_long: "plain_text_html s \<noteq> long_text_html n s"
  by (simp add: plain_text_html_def long_text_html_def)

lemma cited_not_empty: "cited_text_html s info \<noteq> empty_text_html"
  by (simp add: empty_text_html_def cited_text_html_def)

lemma show_nat_1001: "show_nat 1001 = ''1001''"
  by (simp add: show_nat.simps digit_char_def)

lemma cited_not_long: "cited_text_html s info \<noteq> long_text_html n s"
  by (simp add: cited_text_html_def long_text_html_def)

text \<open>
  Claim C4, as stated, fails twice: a text of 1001 spaces renders as the empty
  placeholder, and a text of 1001 letters with a citation renders as the text
  with its citation; neither is the long form.
\<close>

theorem long_text_counterexample:
  "render_text_block example_runtime blank_block (example_message [blank_block]) = Inr empty_text_html \<and>
   empty_text_html \<noteq> long_text_html ''1001'' (replicate 1001 (CHR '' '')) \<and>
   render_text_block example_runtime long_cited_block (example_message [long_cited_block]) =
     Inr (cited_text_html (replicate 1001 (CHR ''a'')) (citation_html ''1'' ''a page'')) \<and>
   cited_text_html (replicate 1001 (CHR ''a'')) (citation_html ''1'' ''a page'') \<noteq>
     long_text_html ''1001'' (replicate 1001 (CHR ''a''))"
proof -
  have "getattr blank_block ''text'' = Inr (VStr (replicate 1001 (CHR '' '')))"
    and "\<not> has_citations blank_block"
    by (simp_all add: blank_block_def has_citations_def no_attribute_def)
  moreover have "strip (replicate 1001 (CHR '' '')) = []"
    by (rule strip_all_space) (simp add: py_isspace_def)
  ultimately have blank:
    "render_text_block example_runtime blank_block (example_message [blank_block]) = Inr empty_text_html"
    by (simp add: render_text_block_plain)
  have "strip (replicate 1001 (CHR ''a'')) \<noteq> []"
    by (rule strip_some_letter) (simp add: py_isspace_def)
  then have cited:
    "render_text_block example_runtime long_cited_block (example_message [long_cited_block]) =
       Inr (cited_text_html (replicate 1001 (CHR ''a'')) (citation_html ''1'' ''a page''))"
    by (simp add: render_text_block_def is_empty_text_def has_citations_def hasattr_def
        enumerate_eq_zip citation_entry_def excerpt_def citation_number_def build_url_to_index_def
        long_cited_block_def example_message_def show_nat_digit)
  from blank cited show ?thesis
    by (simp add: empty_not_long cited_not_long)
qed

text \<open>
  Claim C4, amended. For a text block without citations whose text is not empty
  or white space only: a text of exactly 1001 characters renders as the collapsed
  long form labelled with the count 1001, and a text of exactly 1000 characters
  renders as plain preformatted text, which is not the long form.
\<close>

theorem long_text_threshold:
  assumes "getattr block ''text'' = Inr (VStr s)"
      and "\<not> has_citations block"
      and "\<exists>c\<in>set s. \<not> py_isspace c"
  shows "(length s = 1001 \<longrightarrow>
            render_text_block rt block message = Inr (long_text_html ''1001'' s)) \<and>
         (length s = 1000 \<longrightarrow>
            render_text_block rt block message = Inr (plain_text_html s) \<and>
            plain_text_html s \<noteq> long_text_html (show_nat (length s)) s)"
  using strip_some_letter [OF assms(3)]
  by (simp add: render_text_block_plain [OF assms(1,2)] show_nat_1001 plain_not_long)

theorem long_text_threshold_witness:
  "render_text_block example_runtime long_block (example_message [long_block]) =
     Inr (long_text_html ''1001'' (replicate 1001 (CHR ''a''))) \<and>
   render_text_block example_runtime limit_block (example_message [limit_block]) =
     Inr (plain_text_html (replicate 1000 (CHR ''a'')))"
proof -
  have t1: "getattr long_block ''text'' = Inr (VStr (replicate 1001 (CHR ''a'')))"
    and c1: "\<not> has_citations long_block"
    by (simp_all add: long_block_def has_citations_def no_attribute_def)
  have s1: "\<exists>c\<in>set (replicate 1001 (CHR ''a'')). \<not> py_isspace c"
    by (simp add: py_isspace_def)
  have t2: "getattr limit_block ''text'' = Inr (VStr (replicate 1000 (CHR ''a'')))"
    and c2: "\<not> has_citations limit_block"
    by (simp_all add: limit_block_def has_citations_def no_attribute_def)
  have s2: "\<exists>c\<in>set (replicate 1000 (CHR ''a'')). \<not> py_isspace c"
    by (simp add: py_isspace_def)
  from long_text_threshold [OF t1 c1 s1, of example_runtime "example_message [long_block]"]
       long_text_threshold [OF t2 c2 s2, of example_runtime "example_message [limit_block]"]
  show ?thesis by simp
qed

text \<open>
  Claim C5, as stated, fails: an empty text with a citation renders as the text
  with its citation, not as the empty placeholder.
\<close>

theorem empty_text_counterexample:
  "render_text_block example_runtime empty_cited_block (example_message [empty_cited_block]) =
     Inr (cited_text_html [] (citation_html ''1'' ''a page'')) \<and>
   cited_text_html [] (citation_html ''1'' ''a page'') \<noteq> empty_text_html"
  by (simp add: citation_eval_defs build_url_to_index_def empty_cited_block_def example_message_def
      show_nat_digit cited_not_empty)

text \<open>
  Claim C5, amended. A text block without citations whose text is empty or white
  space only renders as the empty placeholder, which is neither the plain nor the
  long form of that text.
\<close>

theorem empty_text_placeholder:
  assumes "getattr block ''text'' = Inr (VStr s)"
      and "\<forall>c\<in>set s. py_isspace c"
      and "\<not> has_citations block"
  shows "render_text_block rt block message = Inr empty_text_html \<and>
         empty_text_html \<noteq> plain_text_html s \<and>
         empty_text_html \<noteq> long_text_html (show_nat (length s)) s"
  using strip_all_space [OF assms(2)]
  by (simp add: render_text_block_plain [OF assms(1,3)] empty_not_plain empty_not_long)

theorem empty_text_placeholder_witness:
  "render_text_block example_runtime spaces_block (example_message [spaces_block]) = Inr empty_text_html"
proof -
  have t: "getattr spaces_block ''text'' = Inr (VStr [CHR '' '', CHR '' ''])"
    and c: "\<not> has_citations spaces_block"
    by (simp_all add: spaces_block_def has_citations_def)
  have s: "\<forall>c\<in>set [CHR '' '', CHR '' '']. py_isspace c"
    by (simp add: py_isspace_def)
  from empty_text_placeholder [OF t s c, of example_runtime "example_message [spaces_block]"]
  show ?thesis by simp
qed

section \<open>Serialization failures\<close>

lemma unknown_type_shell:
  assumes "t \<notin> {''text'', ''tool_use'', ''tool_result'', ''server_tool_use'',
                  ''web_search_tool_result'', ''image'', ''thinking'', ''document''}"
  shows "\<exists>color icon.
           get_block_color (VStr t) = Inr color \<and> get_block_icon (VStr t) = Inr icon \<and>
           get_block_tooltip_text (VStr t) = Inr None"
  using assms
  by (simp add: get_block_color_def get_block_icon_def get_block_tooltip_text_def dict_get_def
      colors_def icons_def tooltips_def)

lemma unknown_type_body:
  assumes "t \<notin> {''text'', ''tool_use'', ''tool_result'', ''server_tool_use'',
                  ''web_search_tool_result'', ''image'', ''thinking'', ''document''}"
  shows "render_body rt (VStr t) block message depth = Inr (unknown_html (safe_json rt block))"
  using assms by (simp add: render_body_def)

text \<open>
  Claim C8. When the serialization of an object raises, \<^verbatim>\<open>_safe_json\<close> returns the
  placeholder that names the exception. The two callers go on: a block of an
  unknown type renders as its shell around the placeholder, and a tool result
  whose content list holds the object renders with the placeholder in it.
\<close>

theorem serialization_failure_recovered:
  assumes "safe_json_try rt obj = Inl e"
  shows "safe_json rt obj = ''<Unable to serialize: '' @ exn_str e @ ''>'' \<and>
         (\<forall>t index message depth.
            getattr obj ''type'' = Inr (VStr t) \<and>
            t \<notin> {''text'', ''tool_use'', ''tool_result'', ''server_tool_use'',
                  ''web_search_tool_result'', ''image'', ''thinking'', ''document''} \<longrightarrow>
            (\<exists>color icon label.
               render_block rt obj index message depth =
                 Inr (block_shell color icon None label index
                      @ unknown_html (''<Unable to serialize: '' @ exn_str e @ ''>'')
                      @ block_close))) \<and>
         (\<forall>block ident xs.
            getattr block ''tool_use_id'' = Inr ident \<and>
            getattr block ''content'' = Inr (VList xs) \<and> obj \<in> set xs \<longrightarrow>
            (\<exists>html. render_tool_result_block rt block = Inr html \<and>
                    sublist (''<Unable to serialize: '' @ exn_str e @ ''>'') html))"
proof -
  have 1: "safe_json rt obj = ''<Unable to serialize: '' @ exn_str e @ ''>''"
    using assms by (simp add: safe_json_def unable_to_serialize_def)
  have 2: "\<exists>color icon label.
             render_block rt obj index message depth =
               Inr (block_shell color icon None label index
                    @ unknown_html (''<Unable to serialize: '' @ exn_str e @ ''>'')
                    @ block_close)"
    if ty: "getattr obj ''type'' = Inr (VStr t)"
      and unknown: "t \<notin> {''text'', ''tool_use'', ''tool_result'', ''server_tool_use'',
                           ''web_search_tool_result'', ''image'', ''thinking'', ''document''}"
    for t index message depth
  proof -
    from unknown_type_shell [OF unknown] obtain color icon where
      "get_block_color (VStr t) = Inr color" "get_block_icon (VStr t) = Inr icon"
      "get_block_tooltip_text (VStr t) = Inr None"
      by blast
    with ty unknown_type_body [OF unknown, of rt obj message depth] 1
    have "render_block rt obj index message depth =
            Inr (block_shell color icon None (map (\<lambda>c. if c = CHR ''_'' then CHR '' '' else c) t) index
                 @ unknown_html (''<Unable to serialize: '' @ exn_str e @ ''>'')
                 @ block_close)"
      by (simp add: render_block_def type_label_of_def)
    then show ?thesis by blast
  qed
  have 3: "\<exists>html. render_tool_result_block rt block = Inr html \<and>
                  sublist (''<Unable to serialize: '' @ exn_str e @ ''>'') html"
    if ident: "getattr block ''tool_use_id'' = Inr ident"
      and content: "getattr block ''content'' = Inr (VList xs)"
      and mem: "obj \<in> set xs"
    for block ident xs
  proof -
    from mem obtain i where i: "i < length xs" "xs ! i = obj"
      by (auto simp: in_set_conv_nth)
    have "sublist (safe_json rt obj) (render_content_block rt obj)"
      by (simp add: render_content_block_def)
    moreover have "sublist (render_content_block rt obj) (concat (map (render_content_block rt) xs))"
      using sublist_concat_nth [of i "map (render_content_block rt) xs"] i by simp
    ultimately have "sublist (safe_json rt obj) (concat (map (render_content_block rt) xs))"
      by (rule sublist_order.order_trans)
    then have "sublist (safe_json rt obj)
        (tool_result_head (py_str rt ident)
           (if (case getattr block ''is_error'' of Inl e \<Rightarrow> False | Inr b \<Rightarrow> truthy b)
            then error_badge else [])
         @ concat (map (render_content_block rt) xs) @ tool_result_tail)"
      by (rule sublist_after [OF sublist_here])
    with ident content show ?thesis
      unfolding 1 by (simp add: render_tool_result_block_def Let_def)
  qed
  show ?thesis
  proof (intro conjI allI impI)
    show "safe_json rt obj = ''<Unable to serialize: '' @ exn_str e @ ''>''"
      by (rule 1)
  next
    fix t index message depth
    assume b: "getattr obj ''type'' = Inr (VStr t) \<and>
            t \<notin> {''text'', ''tool_use'', ''tool_result'', ''server_tool_use'',
                  ''web_search_tool_result'', ''image'', ''thinking'', ''document''}"
    show "\<exists>color icon label.
               render_block rt obj index message depth =
                 Inr (block_shell color icon None label index
                      @ unknown_html (''<Unable to serialize: '' @ exn_str e @ ''>'')
                      @ block_close)"
      by (rule 2 [OF conjunct1 [OF b] conjunct2 [OF b]])
  next
    fix block ident xs
    assume a: "getattr block ''tool_use_id'' = Inr ident \<and>
            getattr block ''content'' = Inr (VList xs) \<and> obj \<in> set xs"
    show "\<exists>html. render_tool_result_block rt block = Inr html \<and>
                    sublist (''<Unable to serialize: '' @ exn_str e @ ''>'') html"
      by (rule 3 [OF conjunct1 [OF a] conjunct1 [OF conjunct2 [OF a]] conjunct2 [OF conjunct2 [OF a]]])
  qed
qed

text \<open>
  A block of an unknown type whose \<^verbatim>\<open>model_dump()\<close> gives a value that the encoder
  refuses: the placeholder names the encoder's exception and the block renders.
\<close>

theorem serialization_failure_recovered_witness:
  "safe_json client_runtime unknown_block =
     ''<Unable to serialize: Object of type datetime is not JSON serializable>'' \<and>
   (\<exists>color icon label.
      render_block client_runtime unknown_block 0 (example_message [unknown_block]) 0 =
        Inr (block_shell color icon None label 0
             @ unknown_html ''<Unable to serialize: Object of type datetime is not JSON serializable>''
             @ block_close))"
proof -
  have fails: "safe_json_try client_runtime unknown_block =
      Inl (TypeError ''Object of type datetime is not JSON serializable'')"
    by (simp add: safe_json_try_def has_model_dump_def call_model_dump_def client_runtime_def
        example_runtime_def unknown_block_def hasattr_def no_attribute_def)
  have ty: "getattr unknown_block ''type'' = Inr (VStr ''redacted_thinking'')"
    by (simp add: unknown_block_def)
  have unknown: "''redacted_thinking'' \<notin> {''text'', ''tool_use'', ''tool_result'', ''server_tool_use'',
      ''web_search_tool_result'', ''image'', ''thinking'', ''document''}"
    by simp
  note r = serialization_failure_recovered [OF fails]
  note a = conjunct1 [OF r]
  note b = conjunct1 [OF conjunct2 [OF r], rule_format,
      of "''redacted_thinking''" 0 "example_message [unknown_block]" 0, OF conjI [OF ty unknown]]
  from a b show ?thesis by simp
qed

section \<open>The count of a web-search block\<close>

lemma render_search_results_entries:
  "render_search_results rt (enumerate n rs) = Inr h \<Longrightarrow>
   \<exists>es. h = concat es \<and>
     list_all2 (\<lambda>ir e. render_individual_search_result rt (snd ir) (fst ir) = Inr e)
       (filter (\<lambda>ir. is_web_search_result (snd ir)) (enumerate n rs)) es"
proof (induction rs arbitrary: n h)
  case Nil
  then show ?case by simp
next
  case (Cons r rs)
  show ?case
  proof (cases "is_web_search_result r")
    case False
    with Cons.prems have "render_search_results rt (enumerate (Suc n) rs) = Inr h" by simp
    from Cons.IH [OF this] False show ?thesis by simp
  next
    case True
    with Cons.prems obtain e hs where
      e: "render_individual_search_result rt r n = Inr e" and
      hs: "render_search_results rt (enumerate (Suc n) rs) = Inr hs" and
      h: "h = e @ hs"
      by (auto simp: bnd_eq_Inr)
    from Cons.IH [OF hs] obtain es where
      "hs = concat es"
      "list_all2 (\<lambda>ir e. render_individual_search_result rt (snd ir) (fst ir) = Inr e)
         (filter (\<lambda>ir. is_web_search_result (snd ir)) (enumerate (Suc n) rs)) es"
      by blast
    with True e h show ?thesis
      by (intro exI [of _ "e # es"]) simp
  qed
qed

lemma length_filter_enumerate:
  "length (filter (\<lambda>ir. P (snd ir)) (enumerate n rs)) = length (filter P rs)"
  by (induction rs arbitrary: n) simp_all

text \<open>
  Claim C9. The count shown by a web-search block is the length of its content
  list. The entries after it are the renderings of the elements whose type is
  \<^verbatim>\<open>web_search_result\<close>, each with its position in the whole list; so there are at
  most as many entries as the count says, and fewer as soon as one element has
  another type.
\<close>

theorem search_count_is_list_length:
  assumes "render_web_search_result_block rt block depth = Inr html"
      and "getattr block ''content'' = Inr (VList results)"
  shows "\<exists>entries.
           html = search_head (show_nat (length results)) @ concat entries \<and>
           list_all2 (\<lambda>ir e. render_individual_search_result rt (snd ir) (fst ir) = Inr e)
             (filter (\<lambda>ir. is_web_search_result (snd ir)) (enumerate 0 results)) entries \<and>
           length entries = length (filter is_web_search_result results) \<and>
           length entries \<le> length results \<and>
           ((\<exists>r\<in>set results. \<not> is_web_search_result r) \<longrightarrow> length entries < length results)"
proof -
  from assms obtain h where
    h: "render_search_results rt (enumerate 0 results) = Inr h" and
    html: "html = search_head (show_nat (length results)) @ h"
    unfolding render_web_search_result_block_def by (auto simp: bnd_eq_Inr)
  from render_search_results_entries [OF h] obtain es where
    es: "h = concat es"
        "list_all2 (\<lambda>ir e. render_individual_search_result rt (snd ir) (fst ir) = Inr e)
           (filter (\<lambda>ir. is_web_search_result (snd ir)) (enumerate 0 results)) es"
    by blast
  from es(2) have len: "length es = length (filter is_web_search_result results)"
    by (simp add: list_all2_lengthD [symmetric] length_filter_enumerate)
  have "length (filter is_web_search_result results) < length results"
    if "\<exists>r\<in>set results. \<not> is_web_search_result r"
  proof -
    from that obtain r where "r \<in> set results" "\<not> is_web_search_result r" by blast
    then show ?thesis by (rule length_filter_less)
  qed
  with html es len show ?thesis
    by (intro exI [of _ es]) simp
qed

text \<open>Two elements, one of them a search result: the count is 2, with one entry.\<close>

theorem search_count_is_list_length_witness:
  "\<exists>entry. render_web_search_result_block example_runtime mixed_search_block 0 =
             Inr (search_head ''2'' @ entry) \<and>
           render_individual_search_result example_runtime first_result 0 = Inr entry"
proof -
  let ?note = "VObj ''Note'' [(''type'', VStr ''note'')]"
  have "\<exists>html. render_web_search_result_block example_runtime mixed_search_block 0 = Inr html"
    by (simp add: render_web_search_result_block_def mixed_search_block_def first_result_def
        enumerate_eq_zip is_web_search_result_def hasattr_def render_individual_search_result_def)
  then obtain html where
    html: "render_web_search_result_block example_runtime mixed_search_block 0 = Inr html"
    by blast
  have content: "getattr mixed_search_block ''content'' = Inr (VList [first_result, ?note])"
    by (simp add: mixed_search_block_def)
  have f: "filter (\<lambda>ir. is_web_search_result (snd ir)) (enumerate 0 [first_result, ?note]) =
      [(0, first_result)]"
    by (simp add: enumerate_eq_zip is_web_search_result_def hasattr_def first_result_def)
  from search_count_is_list_length [OF html content] obtain entries where
    doc: "html = search_head (show_nat (length [first_result, ?note])) @ concat entries" and
    all: "list_all2 (\<lambda>ir e. render_individual_search_result example_runtime (snd ir) (fst ir) = Inr e)
            (filter (\<lambda>ir. is_web_search_result (snd ir)) (enumerate 0 [first_result, ?note])) entries"
    by blast
  from all obtain entry where
    "entries = [entry]" "render_individual_search_result example_runtime first_result 0 = Inr entry"
    unfolding f by (auto simp: list_all2_Cons1)
  with doc html show ?thesis
    by (simp add: show_nat_digit)
qed

end
